theory Spec2Isabelle
  imports Main "HOL-Library.Word" "HOL-Library.List_Lexorder" "HOL-Library.Multiset"
    "HOL-Library.Sublist"
begin

unbundle bit_operations_syntax

section \<open>Python values\<close>

text \<open>
  A Python \<open>str\<close> is a sequence of Unicode code points, \<open>bytes\<close> a sequence of octets.
  String literals of the source are written \<open>lit ''...''\<close>.
\<close>

type_synonym pystr = "nat list"
type_synonym byte = "8 word"

definition lit :: "string \<Rightarrow> pystr" where
  "lit s = map of_char s"

text \<open>
  A JSON document as \<open>json.load\<close> returns it. A \<open>dict\<close> keeps insertion order and is an
  association list (Python keeps its keys distinct). A float is carried by the text that
  \<open>json.dumps\<close> emits for it (\<open>float.__repr__\<close>, or \<open>NaN\<close>, \<open>Infinity\<close>, \<open>-Infinity\<close>).
\<close>

datatype json =
    JNull
  | JBool bool
  | JInt int
  | JFloat pystr
  | JStr pystr
  | JList "json list"
  | JDict "(pystr \<times> json) list"

datatype exit_reason = ManifestNotFound pystr | InvalidJSON pystr

datatype exn =
    AttributeError
  | TypeError
  | UnicodeEncodeError
  | UnicodeDecodeError
  | IsADirectoryError
  | SystemExit exit_reason

text \<open>
  The validators append to one \<open>errors\<close> list and may raise. A step is modelled by the
  errors it appends, or the exception it raises; \<open>seqs\<close> runs steps in order: the first
  exception ends the run, otherwise the appended errors are concatenated.
\<close>

fun seqs :: "('e + 'a list) list \<Rightarrow> 'e + 'a list" where
  "seqs [] = Inr []"
| "seqs (Inl e # rest) = Inl e"
| "seqs (Inr xs # rest) = (case seqs rest of Inl e \<Rightarrow> Inl e | Inr ys \<Rightarrow> Inr (xs @ ys))"

text \<open>\<open>d.get(key)\<close> and \<open>key in d\<close> on a dict.\<close>

definition dget :: "(pystr \<times> json) list \<Rightarrow> pystr \<Rightarrow> json" where
  "dget d k = (case map_of d k of None \<Rightarrow> JNull | Some v \<Rightarrow> v)"

definition dhas :: "(pystr \<times> json) list \<Rightarrow> pystr \<Rightarrow> bool" where
  "dhas d k = (k \<in> set (map fst d))"

text \<open>\<open>isinstance(v, str)\<close>, \<open>isinstance(v, int)\<close> (a \<open>bool\<close> is an \<open>int\<close>), and so on.\<close>

fun is_str :: "json \<Rightarrow> bool" where
  "is_str (JStr s) = True"
| "is_str v = False"

fun is_int :: "json \<Rightarrow> bool" where
  "is_int (JInt i) = True"
| "is_int (JBool b) = True"
| "is_int v = False"

fun is_list :: "json \<Rightarrow> bool" where
  "is_list (JList xs) = True"
| "is_list v = False"

fun is_dict :: "json \<Rightarrow> bool" where
  "is_dict (JDict d) = True"
| "is_dict v = False"

fun int_value :: "json \<Rightarrow> int" where
  "int_value (JInt i) = i"
| "int_value (JBool b) = (if b then 1 else 0)"
| "int_value v = 0"

text \<open>Truth value of an object (\<open>not v\<close> is its negation).\<close>

fun truthy :: "json \<Rightarrow> bool" where
  "truthy JNull = False"
| "truthy (JBool b) = b"
| "truthy (JInt i) = (i \<noteq> 0)"
| "truthy (JFloat t) = (t \<noteq> lit ''0.0'' \<and> t \<noteq> lit ''-0.0'')"
| "truthy (JStr s) = (s \<noteq> [])"
| "truthy (JList xs) = (xs \<noteq> [])"
| "truthy (JDict d) = (d \<noteq> [])"

text \<open>
  \<open>v in S\<close> for a set \<open>S\<close> of strings: hashing a list or a dict raises \<open>TypeError\<close>; of the
  hashable values only a string can equal a member.
\<close>

fun in_str_set :: "json \<Rightarrow> pystr list \<Rightarrow> exn + bool" where
  "in_str_set (JList xs) S = Inl TypeError"
| "in_str_set (JDict d) S = Inl TypeError"
| "in_str_set (JStr s) S = Inr (s \<in> set S)"
| "in_str_set v S = Inr False"

section \<open>Decimal and hexadecimal text\<close>

function dec :: "nat \<Rightarrow> pystr" where
  "dec n = (if n < 10 then [48 + n] else dec (n div 10) @ [48 + n mod 10])"
  by pat_completeness auto
termination
  by (relation "measure id") auto

declare dec.simps [simp del]

definition str_int :: "int \<Rightarrow> pystr" where
  "str_int i = (if i < 0 then 45 # dec (nat (- i)) else dec (nat i))"

definition hexdigit :: "nat \<Rightarrow> nat" where
  "hexdigit d = (if d < 10 then 48 + d else 87 + d)"

section \<open>UTF-8\<close>

definition utf8_char :: "nat \<Rightarrow> exn + byte list" where
  "utf8_char c =
     (if c < 0x80 then Inr [word_of_nat c]
      else if c < 0x800 then Inr [word_of_nat (0xC0 + c div 64), word_of_nat (0x80 + c mod 64)]
      else if 0xD800 \<le> c \<and> c < 0xE000 then Inl UnicodeEncodeError
      else if c < 0x10000 then
        Inr [word_of_nat (0xE0 + c div 4096), word_of_nat (0x80 + c div 64 mod 64),
             word_of_nat (0x80 + c mod 64)]
      else
        Inr [word_of_nat (0xF0 + c div 262144), word_of_nat (0x80 + c div 4096 mod 64),
             word_of_nat (0x80 + c div 64 mod 64), word_of_nat (0x80 + c mod 64)])"

text \<open>\<open>s.encode("utf-8")\<close>: a surrogate code point raises.\<close>

definition encode_utf8 :: "pystr \<Rightarrow> exn + byte list" where
  "encode_utf8 s = seqs (map utf8_char s)"

definition cont :: "nat \<Rightarrow> bool" where
  "cont b = (0x80 \<le> b \<and> b \<le> 0xBF)"

text \<open>Strict UTF-8 decoding of octets (given as numbers); \<open>None\<close> is \<open>UnicodeDecodeError\<close>.\<close>

fun decode_utf8 :: "nat list \<Rightarrow> pystr option" where
  "decode_utf8 [] = Some []"
| "decode_utf8 (b0 # bs) =
     (if b0 < 0x80 then map_option (Cons b0) (decode_utf8 bs)
      else if 0xC2 \<le> b0 \<and> b0 \<le> 0xDF then
        (case bs of
           b1 # r \<Rightarrow>
             if cont b1
             then map_option (Cons ((b0 - 0xC0) * 64 + (b1 - 0x80))) (decode_utf8 r)
             else None
         | _ \<Rightarrow> None)
      else if 0xE0 \<le> b0 \<and> b0 \<le> 0xEF then
        (case bs of
           b1 # b2 # r \<Rightarrow>
             if cont b1 \<and> cont b2 \<and> (b0 = 0xE0 \<longrightarrow> 0xA0 \<le> b1) \<and> (b0 = 0xED \<longrightarrow> b1 \<le> 0x9F)
             then map_option (Cons ((b0 - 0xE0) * 4096 + (b1 - 0x80) * 64 + (b2 - 0x80)))
                    (decode_utf8 r)
             else None
         | _ \<Rightarrow> None)
      else if 0xF0 \<le> b0 \<and> b0 \<le> 0xF4 then
        (case bs of
           b1 # b2 # b3 # r \<Rightarrow>
             if cont b1 \<and> cont b2 \<and> cont b3 \<and> (b0 = 0xF0 \<longrightarrow> 0x90 \<le> b1)
                \<and> (b0 = 0xF4 \<longrightarrow> b1 \<le> 0x8F)
             then map_option
                    (Cons ((b0 - 0xF0) * 262144 + (b1 - 0x80) * 4096 + (b2 - 0x80) * 64
                           + (b3 - 0x80)))
                    (decode_utf8 r)
             else None
         | _ \<Rightarrow> None)
      else None)"

section \<open>SHA-256 (\<open>hashlib.sha256(data).hexdigest()\<close>)\<close>

type_synonym w32 = "32 word"

definition rotr :: "nat \<Rightarrow> w32 \<Rightarrow> w32" where
  "rotr n x = drop_bit n x OR push_bit (32 - n) x"

text \<open>
  The round constants (the first 32 bits of the fractional parts of the cube roots of the
  first 64 primes) and the initial hash value (likewise, square roots of the first 8
  primes), in decimal.
\<close>

definition sha_K :: "w32 list" where
  "sha_K =
    [1116352408, 1899447441, 3049323471, 3921009573, 961987163, 1508970993, 2453635748,
     2870763221, 3624381080, 310598401, 607225278, 1426881987, 1925078388, 2162078206,
     2614888103, 3248222580, 3835390401, 4022224774, 264347078, 604807628, 770255983,
     1249150122, 1555081692, 1996064986, 2554220882, 2821834349, 2952996808, 3210313671,
     3336571891, 3584528711, 113926993, 338241895, 666307205, 773529912, 1294757372,
     1396182291, 1695183700, 1986661051, 2177026350, 2456956037, 2730485921, 2820302411,
     3259730800, 3345764771, 3516065817, 3600352804, 4094571909, 275423344, 430227734,
     506948616, 659060556, 883997877, 958139571, 1322822218, 1537002063, 1747873779,
     1955562222, 2024104815, 2227730452, 2361852424, 2428436474, 2756734187, 3204031479,
     3329325298]"

definition sha_H0 :: "w32 list" where
  "sha_H0 =
    [1779033703, 3144134277, 1013904242, 2773480762, 1359893119, 2600822924, 528734635,
     1541459225]"

definition ch :: "w32 \<Rightarrow> w32 \<Rightarrow> w32 \<Rightarrow> w32" where
  "ch x y z = (x AND y) XOR (NOT x AND z)"

definition maj :: "w32 \<Rightarrow> w32 \<Rightarrow> w32 \<Rightarrow> w32" where
  "maj x y z = (x AND y) XOR (x AND z) XOR (y AND z)"

definition bsig0 :: "w32 \<Rightarrow> w32" where
  "bsig0 x = rotr 2 x XOR rotr 13 x XOR rotr 22 x"

definition bsig1 :: "w32 \<Rightarrow> w32" where
  "bsig1 x = rotr 6 x XOR rotr 11 x XOR rotr 25 x"

definition ssig0 :: "w32 \<Rightarrow> w32" where
  "ssig0 x = rotr 7 x XOR rotr 18 x XOR drop_bit 3 x"

definition ssig1 :: "w32 \<Rightarrow> w32" where
  "ssig1 x = rotr 17 x XOR rotr 19 x XOR drop_bit 10 x"

definition be32 :: "byte list \<Rightarrow> w32" where
  "be32 bs = foldl (\<lambda>a b. push_bit 8 a OR ucast b) 0 bs"

fun chunks :: "nat \<Rightarrow> nat \<Rightarrow> 'a list \<Rightarrow> 'a list list" where
  "chunks 0 k xs = []"
| "chunks (Suc n) k xs = take k xs # chunks n k (drop k xs)"

fun schedule :: "nat \<Rightarrow> w32 list \<Rightarrow> w32 list" where
  "schedule 0 ws = ws"
| "schedule (Suc n) ws =
     (let t = length ws in
      schedule n
        (ws @ [ssig1 (ws ! (t - 2)) + ws ! (t - 7) + ssig0 (ws ! (t - 15)) + ws ! (t - 16)]))"

fun sha_round :: "w32 list \<Rightarrow> w32 \<times> w32 \<Rightarrow> w32 list" where
  "sha_round [a, b, c, d, e, f, g, h] (k, w) =
     (let t1 = h + bsig1 e + ch e f g + k + w;
          t2 = bsig0 a + maj a b c
      in [t1 + t2, a, b, c, d + t1, e, f, g])"
| "sha_round st kw = st"

definition compress :: "w32 list \<Rightarrow> byte list \<Rightarrow> w32 list" where
  "compress hs block =
     (let ws = schedule 48 (map be32 (chunks 16 4 block))
      in map2 (+) hs (foldl sha_round hs (zip sha_K ws)))"

definition be64 :: "nat \<Rightarrow> byte list" where
  "be64 n = map (\<lambda>i. ucast (drop_bit (8 * (7 - i)) (word_of_nat n :: 64 word))) [0..<8]"

definition sha_pad :: "byte list \<Rightarrow> byte list" where
  "sha_pad m = m @ [0x80] @ replicate ((55 + 64 - length m mod 64) mod 64) 0 @ be64 (8 * length m)"

definition sha256 :: "byte list \<Rightarrow> w32 list" where
  "sha256 m = (let p = sha_pad m in foldl compress sha_H0 (chunks (length p div 64) 64 p))"

definition hex32 :: "w32 \<Rightarrow> pystr" where
  "hex32 w = map (\<lambda>i. hexdigit (unat (drop_bit (4 * (7 - i)) w AND 15))) [0..<8]"

definition sha256_bytes :: "byte list \<Rightarrow> pystr" where
  "sha256_bytes data = concat (map hex32 (sha256 data))"

section \<open>Canonical serialisation (\<open>canonical_manifest_bytes\<close>)\<close>

text \<open>
  \<open>json.dumps(clone, sort_keys=True, separators=(",", ":"), ensure_ascii=False)\<close>.
  With \<open>ensure_ascii=False\<close> only \<open>"\<close>, \<open>\\<close> and the control characters below U+0020 are
  escaped.
\<close>

definition escape_char :: "nat \<Rightarrow> pystr" where
  "escape_char c =
     (if c = 0x22 then lit [CHR 0x5C, CHR 0x22]
      else if c = 0x5C then lit [CHR 0x5C, CHR 0x5C]
      else if c = 0x08 then lit [CHR 0x5C, CHR ''b'']
      else if c = 0x0C then lit [CHR 0x5C, CHR ''f'']
      else if c = 0x0A then lit [CHR 0x5C, CHR ''n'']
      else if c = 0x0D then lit [CHR 0x5C, CHR ''r'']
      else if c = 0x09 then lit [CHR 0x5C, CHR ''t'']
      else if c < 0x20 then lit [CHR 0x5C, CHR ''u'', CHR ''0'', CHR ''0''] @ [hexdigit (c div 16), hexdigit (c mod 16)]
      else [c])"

definition dumps_str :: "pystr \<Rightarrow> pystr" where
  "dumps_str s = [0x22] @ concat (map escape_char s) @ [0x22]"

fun join :: "pystr \<Rightarrow> pystr list \<Rightarrow> pystr" where
  "join sep [] = []"
| "join sep [x] = x"
| "join sep (x # y # ys) = x @ sep @ join sep (y # ys)"

fun dumps :: "json \<Rightarrow> pystr" where
  "dumps JNull = lit ''null''"
| "dumps (JBool b) = (if b then lit ''true'' else lit ''false'')"
| "dumps (JInt i) = str_int i"
| "dumps (JFloat t) = t"
| "dumps (JStr s) = dumps_str s"
| "dumps (JList xs) = lit ''['' @ join (lit '','') (map dumps xs) @ lit '']''"
| "dumps (JDict d) =
     lit ''{'' @ join (lit '','') (map (\<lambda>kv. dumps_str (fst kv) @ lit '':'' @ dumps (snd kv))
                                     (sort_key fst d)) @ lit ''}''"

text \<open>\<open>clone.pop("manifest_sha256", None)\<close> on the copy; only a dict has this \<open>pop\<close>.\<close>

definition dict_pop :: "(pystr \<times> json) list \<Rightarrow> pystr \<Rightarrow> (pystr \<times> json) list" where
  "dict_pop d k = filter (\<lambda>kv. fst kv \<noteq> k) d"

fun canonical_manifest_bytes :: "json \<Rightarrow> exn + byte list" where
  "canonical_manifest_bytes (JDict d) =
     encode_utf8 (dumps (JDict (dict_pop d (lit ''manifest_sha256''))))"
| "canonical_manifest_bytes (JList xs) = Inl TypeError"
| "canonical_manifest_bytes v = Inl AttributeError"

section \<open>The world outside the program\<close>

text \<open>
  What the scripts read from their surroundings: the file system, and the library
  functions whose behaviour is not part of this repository.
\<close>

datatype node = File "byte list" | Dir nat

datatype schema_outcome =
    Unavailable
  | Conforms
  | Violation pystr
  | Failure pystr
  | Exits exit_reason

record env =
  fs :: "pystr \<Rightarrow> node option"
  json_loads :: "pystr \<Rightarrow> json option"
  fromisoformat_ok :: "pystr \<Rightarrow> bool"
  jsonschema :: "pystr \<Rightarrow> json \<Rightarrow> schema_outcome"
  uni_alnum :: "nat \<Rightarrow> bool"
  uni_digit :: "nat \<Rightarrow> nat option"
  str_repr :: "pystr \<Rightarrow> pystr"

text \<open>
  \<^item> \<open>fs\<close>: the node found at a path (given as \<open>str(path)\<close>), if any; a directory carries
    its \<open>st_size\<close>.
  \<^item> \<open>json_loads\<close>: \<open>json.loads\<close>; \<open>None\<close> is \<open>JSONDecodeError\<close>.
  \<^item> \<open>fromisoformat_ok\<close>: whether \<open>datetime.fromisoformat\<close> accepts the text.
  \<^item> \<open>jsonschema\<close>: the optional schema validation, given the schema path and the
    document: the package cannot be imported (\<open>Unavailable\<close>), the document conforms,
    \<open>ValidationError\<close> with its message, another \<open>Exception\<close> with its text, or
    \<open>load_json\<close> of the schema file leaves through \<open>SystemExit\<close>.
  \<^item> \<open>uni_alnum\<close>, \<open>uni_digit\<close>: the Unicode database beyond ASCII, for \<open>\w\<close>, \<open>\b\<close>
    and \<open>\d\<close> of \<open>re\<close>.
  \<^item> \<open>str_repr\<close>: \<open>repr\<close> of a \<open>str\<close>.

  A path names a regular file, a directory, or nothing; other answers of the operating
  system (a permission refused, a name too long) are not modelled, nor is the limit that
  recent Python versions put on the number of digits of an integer read from text.
\<close>

section \<open>Paths (\<open>pathlib\<close>, POSIX flavour)\<close>

datatype ppath = PPath pystr "pystr list"

fun split_on :: "nat \<Rightarrow> pystr \<Rightarrow> pystr list" where
  "split_on sep [] = [[]]"
| "split_on sep (c # cs) =
     (if c = sep then [] # split_on sep cs
      else (case split_on sep cs of p # ps \<Rightarrow> (c # p) # ps | [] \<Rightarrow> [[c]]))"

definition Path :: "pystr \<Rightarrow> ppath" where
  "Path s =
     PPath (if take 1 s = lit ''/''
            then (if take 2 s = lit ''//'' \<and> take 3 s \<noteq> lit ''///'' then lit ''//'' else lit ''/'')
            else [])
           (filter (\<lambda>x. x \<noteq> [] \<and> x \<noteq> lit ''.'') (split_on 47 s))"

fun is_absolute :: "ppath \<Rightarrow> bool" where
  "is_absolute (PPath r ps) = (r \<noteq> [])"

fun joinpath :: "ppath \<Rightarrow> ppath \<Rightarrow> ppath" where
  "joinpath (PPath r ps) (PPath r' ps') =
     (if r' \<noteq> [] then PPath r' ps' else PPath r (ps @ ps'))"

fun path_str :: "ppath \<Rightarrow> pystr" where
  "path_str (PPath r ps) = (if r = [] \<and> ps = [] then lit ''.'' else r @ join (lit ''/'') ps)"

fun parent :: "ppath \<Rightarrow> ppath" where
  "parent (PPath r ps) = PPath r (butlast ps)"

text \<open>\<open>path = Path(path_value); if not path.is_absolute(): path = base_dir / path\<close>\<close>

definition resolve_entry :: "ppath \<Rightarrow> pystr \<Rightarrow> ppath" where
  "resolve_entry base_dir path_value =
     (let path = Path path_value in
      if \<not> is_absolute path then joinpath base_dir path else path)"

definition path_exists :: "env \<Rightarrow> ppath \<Rightarrow> bool" where
  "path_exists env path = (fs env (path_str path) \<noteq> None)"

fun st_size :: "node \<Rightarrow> nat" where
  "st_size (File bs) = length bs"
| "st_size (Dir n) = n"

text \<open>
  \<open>sha256_file\<close> reads the file in chunks of 1 MiB and feeds them to one digest, which is
  the digest of the whole content. Opening a directory raises.
\<close>

fun sha256_file :: "node \<Rightarrow> exn + pystr" where
  "sha256_file (File bs) = Inr (sha256_bytes bs)"
| "sha256_file (Dir n) = Inl IsADirectoryError"

text \<open>A file opened in text mode with \<open>encoding="utf-8"\<close>.\<close>

fun read_text :: "node \<Rightarrow> exn + pystr" where
  "read_text (File bs) =
     (case decode_utf8 (map unat bs) of None \<Rightarrow> Inl UnicodeDecodeError | Some t \<Rightarrow> Inr t)"
| "read_text (Dir n) = Inl IsADirectoryError"

text \<open>
  The lines a text file yields when iterated (universal newlines: \<open>\n\<close>, \<open>\r\n\<close> and \<open>\r\<close>
  end a line), without their terminator, which \<open>strip\<close> removes in any case.
\<close>

fun text_lines :: "pystr \<Rightarrow> pystr \<Rightarrow> pystr list" where
  "text_lines cur [] = (if cur = [] then [] else [cur])"
| "text_lines cur (c # cs) =
     (if c = 10 then cur # text_lines [] cs
      else if c = 13 then
        (case cs of
           [] \<Rightarrow> [cur]
         | d # ds \<Rightarrow> if d = 10 then cur # text_lines [] ds else cur # text_lines [] cs)
      else text_lines (cur @ [c]) cs)"

definition py_isspace :: "nat \<Rightarrow> bool" where
  "py_isspace c =
     ((9 \<le> c \<and> c \<le> 13) \<or> (28 \<le> c \<and> c \<le> 32) \<or> c = 0x85 \<or> c = 0xA0 \<or> c = 0x1680
      \<or> (0x2000 \<le> c \<and> c \<le> 0x200A) \<or> c = 0x2028 \<or> c = 0x2029 \<or> c = 0x202F \<or> c = 0x205F
      \<or> c = 0x3000)"

definition strip :: "pystr \<Rightarrow> pystr" where
  "strip s = rev (dropWhile py_isspace (rev (dropWhile py_isspace s)))"

text \<open>\<open>load_json\<close>, shared by the three validators.\<close>

definition load_json :: "env \<Rightarrow> ppath \<Rightarrow> exn + json" where
  "load_json env path =
     (case fs env (path_str path) of
        None \<Rightarrow> Inl (SystemExit (ManifestNotFound (path_str path)))
      | Some n \<Rightarrow>
          (case read_text n of
             Inl e \<Rightarrow> Inl e
           | Inr t \<Rightarrow>
               (case json_loads env t of
                  None \<Rightarrow> Inl (SystemExit (InvalidJSON (path_str path)))
                | Some v \<Rightarrow> Inr v)))"

section \<open>Text of a value in an f-string\<close>

definition float_repr :: "pystr \<Rightarrow> pystr" where
  "float_repr t =
     (if t = lit ''NaN'' then lit ''nan''
      else if t = lit ''Infinity'' then lit ''inf''
      else if t = lit ''-Infinity'' then lit ''-inf''
      else t)"

fun py_repr :: "env \<Rightarrow> json \<Rightarrow> pystr" where
  "py_repr env JNull = lit ''None''"
| "py_repr env (JBool b) = (if b then lit ''True'' else lit ''False'')"
| "py_repr env (JInt i) = str_int i"
| "py_repr env (JFloat t) = float_repr t"
| "py_repr env (JStr s) = str_repr env s"
| "py_repr env (JList xs) = lit ''['' @ join (lit '', '') (map (py_repr env) xs) @ lit '']''"
| "py_repr env (JDict d) =
     lit ''{'' @ join (lit '', '')
                  (map (\<lambda>kv. str_repr env (fst kv) @ lit '': '' @ py_repr env (snd kv)) d)
     @ lit ''}''"

fun py_str :: "env \<Rightarrow> json \<Rightarrow> pystr" where
  "py_str env (JStr s) = s"
| "py_str env v = py_repr env v"

section \<open>Regular expressions of the scripts\<close>

definition is_digit :: "nat \<Rightarrow> bool" where
  "is_digit c = (48 \<le> c \<and> c \<le> 57)"

text \<open>\<open>[a-f0-9]\<close>, and \<open>[0-9a-f]\<close> under \<open>re.IGNORECASE\<close>.\<close>

definition is_lower_hex :: "nat \<Rightarrow> bool" where
  "is_lower_hex c = (is_digit c \<or> (97 \<le> c \<and> c \<le> 102))"

definition is_hex_ci :: "nat \<Rightarrow> bool" where
  "is_hex_ci c = (is_lower_hex c \<or> (65 \<le> c \<and> c \<le> 70))"

text \<open>\<open>\w\<close> on a \<open>str\<close> pattern: alphanumeric in the Unicode database, or the underscore.\<close>

definition is_word :: "env \<Rightarrow> nat \<Rightarrow> bool" where
  "is_word env c =
     (if c < 128 then is_digit c \<or> (65 \<le> c \<and> c \<le> 90) \<or> (97 \<le> c \<and> c \<le> 122) \<or> c = 95
      else uni_alnum env c)"

text \<open>
  \<open>\b\<close> between the character before the position (if any) and the rest of the string.
\<close>

definition at_boundary :: "env \<Rightarrow> nat option \<Rightarrow> pystr \<Rightarrow> bool" where
  "at_boundary env prev rest =
     ((case prev of None \<Rightarrow> False | Some c \<Rightarrow> is_word env c)
      \<noteq> (case rest of [] \<Rightarrow> False | c # cs \<Rightarrow> is_word env c))"

text \<open>\<open>SHA256_RE = ^[a-f0-9]{64}$\<close> with \<open>match\<close>; \<open>$\<close> also matches before a final newline.\<close>

definition sha256_re :: "pystr \<Rightarrow> bool" where
  "sha256_re s =
     (list_all is_lower_hex (take 64 s)
      \<and> (length s = 64 \<or> (length s = 65 \<and> s ! 64 = 10)))"

text \<open>
  A pattern is modelled by its match at the start of a suffix of the subject, given the
  character before it: the length of the match, if there is one. None of the three
  patterns below matches the empty string.

  \<open>HOME_RE = /(Users|home)/[^/]+\<close>
\<close>

definition home_at :: "pystr \<Rightarrow> pystr \<Rightarrow> nat option" where
  "home_at p s =
     (let name = takeWhile (\<lambda>c. c \<noteq> 47) (drop (length p) s) in
      if prefix p s \<and> name \<noteq> [] then Some (length p + length name) else None)"

definition HOME_RE :: "env \<Rightarrow> nat option \<Rightarrow> pystr \<Rightarrow> nat option" where
  "HOME_RE env prev s =
     (case home_at (lit ''/Users/'') s of
        Some n \<Rightarrow> Some n
      | None \<Rightarrow> home_at (lit ''/home/'') s)"

text \<open>\<open>UUID_RE = \b[0-9a-f]{8}-[0-9a-f]{4}-[0-9a-f]{4}-[0-9a-f]{4}-[0-9a-f]{12}\b\<close>, ignoring case\<close>

fun uuid_shape :: "nat list \<Rightarrow> pystr \<Rightarrow> bool" where
  "uuid_shape [] s = True"
| "uuid_shape [n] s = (length (take n s) = n \<and> list_all is_hex_ci (take n s))"
| "uuid_shape (n # m # ns) s =
     (length (take n s) = n \<and> list_all is_hex_ci (take n s) \<and> take 1 (drop n s) = [45]
      \<and> uuid_shape (m # ns) (drop (Suc n) s))"

definition UUID_RE :: "env \<Rightarrow> nat option \<Rightarrow> pystr \<Rightarrow> nat option" where
  "UUID_RE env prev s =
     (if at_boundary env prev s \<and> uuid_shape [8, 4, 4, 4, 12] s
         \<and> at_boundary env (Some (s ! 35)) (drop 36 s)
      then Some 36 else None)"

text \<open>
  \<open>HEX_RE = \b[0-9a-f]{32,}\b\<close>, ignoring case. The run of hexadecimal digits is taken
  greedily; a shorter one would end between two word characters, where \<open>\b\<close> fails.
\<close>

definition HEX_RE :: "env \<Rightarrow> nat option \<Rightarrow> pystr \<Rightarrow> nat option" where
  "HEX_RE env prev s =
     (let n = length (takeWhile is_hex_ci s) in
      if at_boundary env prev s \<and> 32 \<le> n \<and> at_boundary env (Some (s ! (n - 1))) (drop n s)
      then Some n else None)"

text \<open>\<open>pattern.search(value)\<close>: is there a match at some position?\<close>

fun re_search :: "(nat option \<Rightarrow> pystr \<Rightarrow> nat option) \<Rightarrow> nat option \<Rightarrow> pystr \<Rightarrow> bool" where
  "re_search m prev [] = False"
| "re_search m prev (c # cs) = (m prev (c # cs) \<noteq> None \<or> re_search m (Some c) cs)"

text \<open>
  \<open>pattern.sub(repl, value)\<close>: leftmost matches, not overlapping, are replaced. The counter
  is the number of characters of the current match still to be skipped.
\<close>

fun re_sub ::
  "(nat option \<Rightarrow> pystr \<Rightarrow> nat option) \<Rightarrow> pystr \<Rightarrow> nat \<Rightarrow> nat option \<Rightarrow> pystr \<Rightarrow> pystr" where
  "re_sub m repl k prev [] = []"
| "re_sub m repl (Suc k) prev (c # cs) = re_sub m repl k (Some c) cs"
| "re_sub m repl 0 prev (c # cs) =
     (case m prev (c # cs) of
        Some (Suc n) \<Rightarrow> repl @ re_sub m repl n (Some c) cs
      | _ \<Rightarrow> c # re_sub m repl 0 (Some c) cs)"

text \<open>
  \<open>VERSION_RE = ^(\d+)\.(\d+)\.(\d+)$\<close> with \<open>match\<close>, and \<open>int(match.group(1))\<close>: the
  value of the first group when the text matches.
\<close>

definition digit_value :: "env \<Rightarrow> nat \<Rightarrow> nat option" where
  "digit_value env c = (if c < 128 then (if is_digit c then Some (c - 48) else None) else uni_digit env c)"

definition is_number :: "env \<Rightarrow> pystr \<Rightarrow> bool" where
  "is_number env g = (g \<noteq> [] \<and> list_all (\<lambda>c. digit_value env c \<noteq> None) g)"

definition int_of_digits :: "env \<Rightarrow> pystr \<Rightarrow> nat" where
  "int_of_digits env g = foldl (\<lambda>a c. 10 * a + (case digit_value env c of None \<Rightarrow> 0 | Some d \<Rightarrow> d)) 0 g"

definition VERSION_RE :: "env \<Rightarrow> pystr \<Rightarrow> nat option" where
  "VERSION_RE env version =
     (let body = (if version \<noteq> [] \<and> last version = 10 then butlast version else version) in
      case split_on 46 body of
        [a, b, c] \<Rightarrow>
          if is_number env a \<and> is_number env b \<and> is_number env c
          then Some (int_of_digits env a) else None
      | _ \<Rightarrow> None)"

section \<open>Helpers shared by the validators\<close>

text \<open>
  \<open>field in manifest\<close> for whatever \<open>json.load\<close> returned: key membership for a dict,
  element membership for a list, substring test for a string; the other values are not
  iterable.
\<close>

fun py_contains :: "json \<Rightarrow> pystr \<Rightarrow> exn + bool" where
  "py_contains (JDict d) field = Inr (dhas d field)"
| "py_contains (JList xs) field = Inr (JStr field \<in> set xs)"
| "py_contains (JStr s) field = Inr (sublist field s)"
| "py_contains v field = Inl TypeError"

definition require_field :: "json \<Rightarrow> pystr \<Rightarrow> exn + pystr list" where
  "require_field manifest field =
     (case py_contains manifest field of
        Inl e \<Rightarrow> Inl e
      | Inr b \<Rightarrow> Inr (if \<not> b then [lit ''missing required field: '' @ field] else []))"

definition validate_schema_with_jsonschema :: "env \<Rightarrow> json \<Rightarrow> ppath \<Rightarrow> exn + pystr list" where
  "validate_schema_with_jsonschema env manifest schema_path =
     (case jsonschema env (path_str schema_path) manifest of
        Unavailable \<Rightarrow> Inr []
      | Conforms \<Rightarrow> Inr []
      | Violation msg \<Rightarrow> Inr [lit ''schema validation failed: '' @ msg]
      | Failure msg \<Rightarrow> Inr [lit ''schema validation error: '' @ msg]
      | Exits r \<Rightarrow> Inl (SystemExit r))"

definition parse_rfc3339 :: "env \<Rightarrow> pystr \<Rightarrow> bool" where
  "parse_rfc3339 env v =
     fromisoformat_ok env
       (if v \<noteq> [] \<and> last v = 90 then butlast v @ lit ''+00:00'' else v)"

definition validate_version :: "env \<Rightarrow> pystr \<Rightarrow> pystr list" where
  "validate_version env version =
     (case VERSION_RE env version of
        None \<Rightarrow> [lit ''schema_version not semver: '' @ version]
      | Some major \<Rightarrow>
          if major \<noteq> 1 then [lit ''unsupported schema_version major: '' @ version] else [])"

definition check_schema_version :: "env \<Rightarrow> (pystr \<times> json) list \<Rightarrow> pystr list" where
  "check_schema_version env m =
     (case dget m (lit ''schema_version'') of
        JStr v \<Rightarrow> validate_version env v
      | _ \<Rightarrow> [lit ''schema_version must be string''])"

definition must_be_string :: "(pystr \<times> json) list \<Rightarrow> pystr \<Rightarrow> pystr \<Rightarrow> pystr list" where
  "must_be_string d key label =
     (if \<not> is_str (dget d key) then [label @ lit '' must be string''] else [])"

section \<open>Fixture manifests (\<open>validate_fixture_manifest.py\<close>)\<close>

definition REDACTION_PROFILES :: "pystr list" where
  "REDACTION_PROFILES = [lit ''minimal'', lit ''safe'', lit ''forensic'', lit ''custom'']"

definition check_redaction :: "env \<Rightarrow> pystr \<Rightarrow> pystr \<Rightarrow> pystr list" where
  "check_redaction env v label =
     (if re_search (HOME_RE env) None v then [label @ lit '' contains unredacted home path'']
      else [])
     @ (if re_search (UUID_RE env) None v then [label @ lit '' contains unredacted UUID'']
        else [])
     @ (if re_search (HEX_RE env) None v then [label @ lit '' contains unredacted hex id'']
        else [])"

definition source_label :: "pystr \<Rightarrow> nat \<Rightarrow> pystr" where
  "source_label key idx = lit ''source.'' @ key @ lit ''['' @ dec idx @ lit '']''"

definition source_item :: "env \<Rightarrow> pystr \<Rightarrow> nat \<times> json \<Rightarrow> pystr list" where
  "source_item env key p =
     (case snd p of
        JStr item \<Rightarrow> check_redaction env item (source_label key (fst p))
      | _ \<Rightarrow> [source_label key (fst p) @ lit '' must be string''])"

definition source_key :: "env \<Rightarrow> (pystr \<times> json) list \<Rightarrow> pystr \<Rightarrow> pystr list" where
  "source_key env source key =
     (case dget source key of
        JNull \<Rightarrow> []
      | JList v \<Rightarrow> concat (map (source_item env key) (enumerate 0 v))
      | _ \<Rightarrow> [lit ''source.'' @ key @ lit '' must be list''])"

definition validate_source :: "env \<Rightarrow> (pystr \<times> json) list \<Rightarrow> pystr list" where
  "validate_source env source =
     (case dget source (lit ''origin'') of
        JStr origin \<Rightarrow> if origin = [] then [lit ''source.origin must be string''] else []
      | _ \<Rightarrow> [lit ''source.origin must be string''])
     @ concat (map (source_key env source) [lit ''command'', lit ''paths''])
     @ (case dget source (lit ''notes'') of
          JNull \<Rightarrow> []
        | JStr notes \<Rightarrow> []
        | _ \<Rightarrow> [lit ''source.notes must be string''])"

definition tool_version_item :: "pystr \<times> json \<Rightarrow> pystr list" where
  "tool_version_item kv =
     (if fst kv = [] then [lit ''tool_versions keys must be strings'']
      else (case snd kv of
              JStr v \<Rightarrow>
                if v = [] then [lit ''tool_versions.'' @ fst kv @ lit '' must be string'']
                else []
            | _ \<Rightarrow> [lit ''tool_versions.'' @ fst kv @ lit '' must be string'']))"

definition validate_tool_versions :: "(pystr \<times> json) list \<Rightarrow> pystr list" where
  "validate_tool_versions tool_versions = concat (map tool_version_item tool_versions)"

text \<open>The size and digest comparisons, in the wording of both validators.\<close>

definition bytes_check :: "env \<Rightarrow> pystr \<Rightarrow> pystr \<Rightarrow> json \<Rightarrow> nat \<Rightarrow> pystr list" where
  "bytes_check env label path_value expected_bytes actual_bytes =
     (if \<not> is_int expected_bytes then [label @ lit '' bytes missing for '' @ path_value]
      else if int_value expected_bytes \<noteq> int actual_bytes then
        [label @ lit '' bytes mismatch for '' @ path_value @ lit '': expected ''
         @ py_str env expected_bytes @ lit '', got '' @ str_int (int actual_bytes)]
      else [])"

definition sha256_check :: "pystr \<Rightarrow> pystr \<Rightarrow> json \<Rightarrow> pystr \<Rightarrow> pystr list" where
  "sha256_check label path_value expected_hash actual_hash =
     (case expected_hash of
        JStr h \<Rightarrow>
          if \<not> sha256_re h then [label @ lit '' sha256 invalid for '' @ path_value]
          else if h \<noteq> actual_hash then
            [label @ lit '' sha256 mismatch for '' @ path_value @ lit '': expected '' @ h
             @ lit '', got '' @ actual_hash]
          else []
      | _ \<Rightarrow> [label @ lit '' sha256 invalid for '' @ path_value])"

definition validate_artifact_entry ::
  "env \<Rightarrow> (pystr \<times> json) list \<Rightarrow> ppath \<Rightarrow> exn + pystr list" where
  "validate_artifact_entry env entry base_dir =
     (case dget entry (lit ''path'') of
        JStr path_value \<Rightarrow>
          if path_value = [] then Inr [lit ''artifact entry missing path'']
          else
            (let path = resolve_entry base_dir path_value in
             case fs env (path_str path) of
               None \<Rightarrow> Inr [lit ''artifact file missing: '' @ path_str path]
             | Some n \<Rightarrow>
                 (let expected_hash = dget entry (lit ''sha256'');
                      expected_bytes = dget entry (lit ''bytes'');
                      actual_bytes = st_size n
                  in case sha256_file n of
                       Inl e \<Rightarrow> Inl e
                     | Inr actual_hash \<Rightarrow>
                         seqs
                           [Inr (bytes_check env (lit ''artifact'') path_value expected_bytes
                                   actual_bytes),
                            Inr (sha256_check (lit ''artifact'') path_value expected_hash
                                   actual_hash),
                            (case in_str_set (dget entry (lit ''redaction_profile''))
                                    REDACTION_PROFILES of
                               Inl e \<Rightarrow> Inl e
                             | Inr b \<Rightarrow>
                                 Inr (if \<not> b
                                      then [lit ''artifact redaction_profile invalid for ''
                                            @ path_value]
                                      else []))]))
      | _ \<Rightarrow> Inr [lit ''artifact entry missing path''])"

definition fixture_artifacts :: "env \<Rightarrow> (pystr \<times> json) list \<Rightarrow> ppath \<Rightarrow> exn + pystr list" where
  "fixture_artifacts env m manifest_path =
     (case dget m (lit ''artifacts'') of
        JList artifacts \<Rightarrow>
          if artifacts \<noteq> [] then
            seqs (map (\<lambda>entry.
                    case entry of
                      JDict e \<Rightarrow> validate_artifact_entry env e (parent manifest_path)
                    | _ \<Rightarrow> Inr [lit ''artifact entry must be object'']) artifacts)
          else Inr [lit ''artifacts must be non-empty list'']
      | _ \<Rightarrow> Inr [lit ''artifacts must be non-empty list''])"

text \<open>The last block of \<open>validate_manifest\<close>: the stored digest against the recomputed one.\<close>

definition fixture_self_hash :: "(pystr \<times> json) list \<Rightarrow> exn + pystr list" where
  "fixture_self_hash m =
     (case dget m (lit ''manifest_sha256'') of
        JStr manifest_sha \<Rightarrow>
          if sha256_re manifest_sha then
            (case canonical_manifest_bytes (JDict m) of
               Inl e \<Rightarrow> Inl e
             | Inr data \<Rightarrow>
                 Inr (if manifest_sha \<noteq> sha256_bytes data then [lit ''manifest_sha256 mismatch'']
                      else []))
          else Inr [lit ''manifest_sha256 must be sha256 hex'']
      | _ \<Rightarrow> Inr [lit ''manifest_sha256 must be sha256 hex''])"

definition fixture_fields :: "pystr list" where
  "fixture_fields =
     [lit ''schema_version'', lit ''fixture_id'', lit ''domain'', lit ''capture_time'',
      lit ''source'', lit ''tool_versions'', lit ''redaction_profile'', lit ''artifacts'',
      lit ''manifest_sha256'']"

definition validate_manifest :: "env \<Rightarrow> json \<Rightarrow> ppath \<Rightarrow> ppath \<Rightarrow> exn + pystr list" where
  "validate_manifest env manifest manifest_path schema_path =
     seqs
       [validate_schema_with_jsonschema env manifest schema_path,
        seqs (map (require_field manifest) fixture_fields),
        (case manifest of
           JDict m \<Rightarrow>
             seqs
               [Inr (check_schema_version env m),
                Inr (must_be_string m (lit ''fixture_id'') (lit ''fixture_id'')),
                Inr (must_be_string m (lit ''domain'') (lit ''domain'')),
                Inr (case dget m (lit ''capture_time'') of
                       JStr capture_time \<Rightarrow>
                         if \<not> parse_rfc3339 env capture_time
                         then [lit ''capture_time must be RFC3339 timestamp''] else []
                     | _ \<Rightarrow> [lit ''capture_time must be string'']),
                Inr (case dget m (lit ''source'') of
                       JDict source \<Rightarrow> validate_source env source
                     | _ \<Rightarrow> [lit ''source must be object'']),
                Inr (case dget m (lit ''tool_versions'') of
                       JDict tool_versions \<Rightarrow> validate_tool_versions tool_versions
                     | _ \<Rightarrow> [lit ''tool_versions must be object'']),
                (case in_str_set (dget m (lit ''redaction_profile'')) REDACTION_PROFILES of
                   Inl e \<Rightarrow> Inl e
                 | Inr b \<Rightarrow>
                     Inr (if \<not> b
                          then [lit ''redaction_profile must be one of minimal/safe/forensic/custom'']
                          else [])),
                fixture_artifacts env m manifest_path,
                fixture_self_hash m]
         | _ \<Rightarrow> Inl AttributeError)]"

section \<open>End-to-end manifests (\<open>validate_e2e_manifest.py\<close>)\<close>

text \<open>
  Each of the three scripts has its own \<open>validate_manifest\<close>. The one of the fixture
  validator keeps the name; those of the other two scripts are \<open>validate_manifest_e2e\<close>
  and \<open>validate_manifest_capabilities\<close>.
\<close>

definition LOG_KINDS :: "pystr list" where
  "LOG_KINDS = [lit ''jsonl'', lit ''text'', lit ''tap'', lit ''stdout'', lit ''stderr'']"

definition ARTIFACT_KINDS :: "pystr list" where
  "ARTIFACT_KINDS =
     [lit ''snapshot'', lit ''plan'', lit ''telemetry'', lit ''bundle'', lit ''report'',
      lit ''daemon'', lit ''install'', lit ''tui'', lit ''manifest'', lit ''other'']"

definition REDACTION_REQUIRED_KINDS :: "pystr list" where
  "REDACTION_REQUIRED_KINDS =
     [lit ''snapshot'', lit ''plan'', lit ''telemetry'', lit ''bundle'', lit ''report'']"

definition validate_file_entry ::
  "env \<Rightarrow> (pystr \<times> json) list \<Rightarrow> ppath \<Rightarrow> pystr \<Rightarrow> exn + pystr list" where
  "validate_file_entry env entry base_dir label =
     (case dget entry (lit ''path'') of
        JStr path_value \<Rightarrow>
          if path_value = [] then Inr [label @ lit '' entry missing path'']
          else
            (let path = resolve_entry base_dir path_value in
             case fs env (path_str path) of
               None \<Rightarrow> Inr [label @ lit '' file missing: '' @ path_str path]
             | Some n \<Rightarrow>
                 (let expected_hash = dget entry (lit ''sha256'');
                      expected_bytes = dget entry (lit ''bytes'');
                      actual_bytes = st_size n
                  in case sha256_file n of
                       Inl e \<Rightarrow> Inl e
                     | Inr actual_hash \<Rightarrow>
                         Inr (bytes_check env label path_value expected_bytes actual_bytes
                              @ sha256_check label path_value expected_hash actual_hash)))
      | _ \<Rightarrow> Inr [label @ lit '' entry missing path''])"

text \<open>One line of a JSONL log: the body of the loop of \<open>validate_jsonl_run_id\<close>.\<close>

definition jsonl_line :: "env \<Rightarrow> pystr \<Rightarrow> pystr \<Rightarrow> nat \<times> pystr \<Rightarrow> exn + pystr list" where
  "jsonl_line env path_value run_id p =
     (let line = strip (snd p) in
      if line = [] then Inr []
      else
        (case json_loads env line of
           None \<Rightarrow>
             Inr [lit ''jsonl parse error in '' @ path_value @ lit '' line '' @ dec (fst p)]
         | Some payload \<Rightarrow>
             (case payload of
                JDict d \<Rightarrow>
                  Inr (if dget d (lit ''run_id'') \<noteq> JStr run_id
                       then [lit ''jsonl run_id mismatch in '' @ path_value @ lit '' line ''
                             @ dec (fst p)]
                       else [])
              | _ \<Rightarrow> Inl AttributeError)))"

definition validate_jsonl_run_id ::
  "env \<Rightarrow> (pystr \<times> json) list \<Rightarrow> ppath \<Rightarrow> pystr \<Rightarrow> exn + pystr list" where
  "validate_jsonl_run_id env entry base_dir run_id =
     (case dget entry (lit ''path'') of
        JStr path_value \<Rightarrow>
          if path_value = [] then Inr []
          else
            (case fs env (path_str (resolve_entry base_dir path_value)) of
               None \<Rightarrow> Inr []
             | Some n \<Rightarrow>
                 (case read_text n of
                    Inl e \<Rightarrow> Inl e
                  | Inr t \<Rightarrow>
                      seqs (map (jsonl_line env path_value run_id)
                              (enumerate 1 (text_lines [] t)))))
      | _ \<Rightarrow> Inr [])"

definition e2e_self_hash :: "(pystr \<times> json) list \<Rightarrow> exn + pystr list" where
  "e2e_self_hash m =
     (case dget m (lit ''manifest_sha256'') of
        JStr manifest_sha256 \<Rightarrow>
          (case canonical_manifest_bytes (JDict m) of
             Inl e \<Rightarrow> Inl e
           | Inr data \<Rightarrow>
               Inr ((if \<not> sha256_re manifest_sha256
                     then [lit ''manifest_sha256 not sha256 hex''] else [])
                    @ (if manifest_sha256 \<noteq> sha256_bytes data
                       then [lit ''manifest_sha256 mismatch: expected '' @ manifest_sha256
                             @ lit '', got '' @ sha256_bytes data]
                       else [])))
      | _ \<Rightarrow> Inr [lit ''manifest_sha256 must be string''])"

definition e2e_run_id :: "(pystr \<times> json) list \<Rightarrow> pystr" where
  "e2e_run_id m = (case dget m (lit ''run_id'') of JStr r \<Rightarrow> r | _ \<Rightarrow> [])"

definition e2e_command :: "nat \<times> json \<Rightarrow> pystr list" where
  "e2e_command p =
     (case snd p of
        JDict entry \<Rightarrow>
          (if (case dget entry (lit ''argv'') of
                 JList argv \<Rightarrow> argv = [] \<or> \<not> list_all is_str argv
               | _ \<Rightarrow> True)
           then [lit ''commands['' @ dec (fst p) @ lit ''].argv must be non-empty string array'']
           else [])
          @ (if \<not> is_int (dget entry (lit ''exit_code''))
             then [lit ''commands['' @ dec (fst p) @ lit ''].exit_code must be integer'']
             else [])
          @ (if \<not> is_int (dget entry (lit ''duration_ms''))
             then [lit ''commands['' @ dec (fst p) @ lit ''].duration_ms must be integer'']
             else [])
      | _ \<Rightarrow> [lit ''commands['' @ dec (fst p) @ lit ''] must be object''])"

definition e2e_commands :: "(pystr \<times> json) list \<Rightarrow> pystr list" where
  "e2e_commands m =
     (case dget m (lit ''commands'') of
        JList commands \<Rightarrow>
          if commands \<noteq> [] then concat (map e2e_command (enumerate 0 commands))
          else [lit ''commands must be non-empty array'']
      | _ \<Rightarrow> [lit ''commands must be non-empty array''])"

definition e2e_log_entry :: "env \<Rightarrow> ppath \<Rightarrow> pystr \<Rightarrow> json \<Rightarrow> exn + pystr list" where
  "e2e_log_entry env base_dir run_id entry =
     (case entry of
        JDict e \<Rightarrow>
          seqs
            [(case in_str_set (dget e (lit ''kind'')) LOG_KINDS of
                Inl x \<Rightarrow> Inl x
              | Inr b \<Rightarrow>
                  Inr (if \<not> b then [lit ''log kind invalid: '' @ py_str env (dget e (lit ''kind''))]
                       else [])),
             validate_file_entry env e base_dir (lit ''log''),
             (if dget e (lit ''kind'') = JStr (lit ''jsonl'') \<and> run_id \<noteq> []
              then validate_jsonl_run_id env e base_dir run_id else Inr [])]
      | _ \<Rightarrow> Inr [lit ''log entry must be object''])"

definition e2e_logs :: "env \<Rightarrow> (pystr \<times> json) list \<Rightarrow> ppath \<Rightarrow> exn + pystr list" where
  "e2e_logs env m manifest_path =
     (case dget m (lit ''logs'') of
        JList logs \<Rightarrow> seqs (map (e2e_log_entry env (parent manifest_path) (e2e_run_id m)) logs)
      | _ \<Rightarrow> Inr [lit ''logs must be array''])"

definition e2e_artifact_entry :: "env \<Rightarrow> ppath \<Rightarrow> json \<Rightarrow> exn + pystr list" where
  "e2e_artifact_entry env base_dir entry =
     (case entry of
        JDict e \<Rightarrow>
          seqs
            [(case in_str_set (dget e (lit ''kind'')) ARTIFACT_KINDS of
                Inl x \<Rightarrow> Inl x
              | Inr b \<Rightarrow>
                  Inr (if \<not> b
                       then [lit ''artifact kind invalid: '' @ py_str env (dget e (lit ''kind''))]
                       else [])),
             validate_file_entry env e base_dir (lit ''artifact''),
             (case in_str_set (dget e (lit ''kind'')) REDACTION_REQUIRED_KINDS of
                Inl x \<Rightarrow> Inl x
              | Inr b \<Rightarrow>
                  Inr (if b \<and> \<not> truthy (dget e (lit ''redaction_profile''))
                       then [lit ''artifact '' @ py_str env (dget e (lit ''path''))
                             @ lit '' missing redaction_profile'']
                       else []))]
      | _ \<Rightarrow> Inr [lit ''artifact entry must be object''])"

definition e2e_artifacts :: "env \<Rightarrow> (pystr \<times> json) list \<Rightarrow> ppath \<Rightarrow> exn + pystr list" where
  "e2e_artifacts env m manifest_path =
     (case dget m (lit ''artifacts'') of
        JList artifacts \<Rightarrow> seqs (map (e2e_artifact_entry env (parent manifest_path)) artifacts)
      | _ \<Rightarrow> Inr [lit ''artifacts must be array''])"

definition e2e_fields :: "pystr list" where
  "e2e_fields =
     [lit ''schema_version'', lit ''run_id'', lit ''suite'', lit ''test_id'', lit ''timestamp'',
      lit ''env'', lit ''commands'', lit ''logs'', lit ''artifacts'', lit ''metrics'',
      lit ''manifest_sha256'']"

definition validate_manifest_e2e :: "env \<Rightarrow> json \<Rightarrow> ppath \<Rightarrow> ppath \<Rightarrow> exn + pystr list" where
  "validate_manifest_e2e env manifest manifest_path schema_path =
     seqs
       [validate_schema_with_jsonschema env manifest schema_path,
        seqs (map (require_field manifest) e2e_fields),
        (case manifest of
           JDict m \<Rightarrow>
             seqs
               [Inr (check_schema_version env m),
                Inr (must_be_string m (lit ''run_id'') (lit ''run_id'')),
                Inr (must_be_string m (lit ''suite'') (lit ''suite'')),
                Inr (must_be_string m (lit ''test_id'') (lit ''test_id'')),
                Inr (case dget m (lit ''timestamp'') of
                       JStr timestamp \<Rightarrow>
                         if \<not> parse_rfc3339 env timestamp then [lit ''timestamp not RFC3339'']
                         else []
                     | _ \<Rightarrow> [lit ''timestamp must be string'']),
                Inr (case dget m (lit ''env'') of
                       JDict e \<Rightarrow>
                         concat (map (\<lambda>field. must_be_string e field (lit ''env.'' @ field))
                                   [lit ''os'', lit ''arch'', lit ''kernel'', lit ''ci_provider''])
                     | _ \<Rightarrow> [lit ''env must be object'']),
                e2e_self_hash m,
                Inr (e2e_commands m),
                e2e_logs env m manifest_path,
                e2e_artifacts env m manifest_path]
         | _ \<Rightarrow> Inl AttributeError)]"

section \<open>Capabilities manifests (\<open>validate_capabilities_manifest.py\<close>)\<close>

definition capabilities_fields :: "pystr list" where
  "capabilities_fields =
     [lit ''schema_version'', lit ''os'', lit ''tools'', lit ''user'', lit ''paths'',
      lit ''discovered_at'']"

definition validate_manifest_capabilities :: "env \<Rightarrow> json \<Rightarrow> ppath \<Rightarrow> exn + pystr list" where
  "validate_manifest_capabilities env manifest schema_path =
     seqs
       [validate_schema_with_jsonschema env manifest schema_path,
        seqs (map (require_field manifest) capabilities_fields),
        (case manifest of
           JDict m \<Rightarrow>
             Inr (check_schema_version env m
                  @ (case dget m (lit ''os'') of
                       JDict os_info \<Rightarrow> must_be_string os_info (lit ''family'') (lit ''os.family'')
                     | _ \<Rightarrow> [lit ''os must be object''])
                  @ (if \<not> is_dict (dget m (lit ''tools'')) then [lit ''tools must be object'']
                     else [])
                  @ (case dget m (lit ''user'') of
                       JDict user \<Rightarrow>
                         (if \<not> is_int (dget user (lit ''uid''))
                          then [lit ''user.uid must be integer''] else [])
                         @ must_be_string user (lit ''username'') (lit ''user.username'')
                         @ must_be_string user (lit ''home'') (lit ''user.home'')
                     | _ \<Rightarrow> [lit ''user must be object''])
                  @ (case dget m (lit ''paths'') of
                       JDict paths \<Rightarrow>
                         must_be_string paths (lit ''config_dir'') (lit ''paths.config_dir'')
                         @ must_be_string paths (lit ''data_dir'') (lit ''paths.data_dir'')
                     | _ \<Rightarrow> [lit ''paths must be object''])
                  @ (case dget m (lit ''discovered_at'') of
                       JStr discovered_at \<Rightarrow>
                         if \<not> parse_rfc3339 env discovered_at
                         then [lit ''discovered_at must be RFC3339 timestamp''] else []
                     | _ \<Rightarrow> [lit ''discovered_at must be string'']))
         | _ \<Rightarrow> Inl AttributeError)]"

text \<open>
  The entry points: \<open>load_json\<close>, then \<open>validate_manifest\<close>; the result is the exit status
  with the lines written to standard error, unless an exception leaves \<open>main\<close>. The paths
  are those that \<open>main\<close> has computed from its arguments (\<open>main\<close> of the end-to-end
  validator resolves the manifest path first).
\<close>

definition report :: "pystr list \<Rightarrow> nat \<times> pystr list" where
  "report errors = (if errors \<noteq> [] then (1, errors) else (0, []))"

definition main_fixture :: "env \<Rightarrow> ppath \<Rightarrow> ppath \<Rightarrow> exn + nat \<times> pystr list" where
  "main_fixture env manifest_path schema_path =
     (case load_json env manifest_path of
        Inl e \<Rightarrow> Inl e
      | Inr manifest \<Rightarrow>
          (case validate_manifest env manifest manifest_path schema_path of
             Inl e \<Rightarrow> Inl e
           | Inr errors \<Rightarrow> Inr (report errors)))"

definition main_e2e :: "env \<Rightarrow> ppath \<Rightarrow> ppath \<Rightarrow> exn + nat \<times> pystr list" where
  "main_e2e env manifest_path schema_path =
     (case load_json env manifest_path of
        Inl e \<Rightarrow> Inl e
      | Inr manifest \<Rightarrow>
          (case validate_manifest_e2e env manifest manifest_path schema_path of
             Inl e \<Rightarrow> Inl e
           | Inr errors \<Rightarrow> Inr (report (map (\<lambda>error. lit ''ERROR: '' @ error) errors))))"

definition main_capabilities :: "env \<Rightarrow> ppath \<Rightarrow> ppath \<Rightarrow> exn + nat \<times> pystr list" where
  "main_capabilities env manifest_path schema_path =
     (case load_json env manifest_path of
        Inl e \<Rightarrow> Inl e
      | Inr manifest \<Rightarrow>
          (case validate_manifest_capabilities env manifest schema_path of
             Inl e \<Rightarrow> Inl e
           | Inr errors \<Rightarrow> Inr (report errors)))"

section \<open>The capture path (\<open>fixture_capture.py\<close>)\<close>

definition SCHEMA_VERSION :: pystr where
  "SCHEMA_VERSION = lit ''1.0.0''"

definition redact_path :: "env \<Rightarrow> pystr \<Rightarrow> pystr" where
  "redact_path env v = re_sub (HOME_RE env) (lit ''/home/USER'') 0 None v"

definition redact_id :: "env \<Rightarrow> pystr \<Rightarrow> pystr" where
  "redact_id env v =
     re_sub (HEX_RE env) (lit ''<HEX>'') 0 None (re_sub (UUID_RE env) (lit ''<UUID>'') 0 None v)"

definition redact_cmdline :: "env \<Rightarrow> pystr \<Rightarrow> pystr" where
  "redact_cmdline env v = redact_id env (redact_path env v)"

definition redact_values :: "env \<Rightarrow> pystr list \<Rightarrow> json list" where
  "redact_values env vs = map (\<lambda>v. JStr (redact_cmdline env v)) vs"

text \<open>\<open>d[k] = v\<close>: a new key goes to the end, an existing one keeps its place.\<close>

definition dict_set :: "(pystr \<times> json) list \<Rightarrow> pystr \<Rightarrow> json \<Rightarrow> (pystr \<times> json) list" where
  "dict_set d k v =
     (if dhas d k then map (\<lambda>kv. if fst kv = k then (k, v) else kv) d else d @ [(k, v)])"

text \<open>
  \<open>build_manifest\<close>. Its \<open>canonical_manifest_bytes\<close> differs from the validators' only in
  copying the dict with \<open>dict(manifest)\<close> instead of \<open>deepcopy\<close>; the key is popped from
  the copy in both, so it is the same function.
\<close>

definition build_manifest ::
  "env \<Rightarrow> pystr \<Rightarrow> pystr \<Rightarrow> pystr option \<Rightarrow> pystr \<Rightarrow> pystr \<Rightarrow> pystr list option
     \<Rightarrow> pystr list option \<Rightarrow> (pystr \<times> pystr) list \<Rightarrow> pystr \<Rightarrow> json list \<Rightarrow> exn + json" where
  "build_manifest env fixture_id domain description capture_time origin command source_paths
     tool_versions redaction_profile artifacts =
     (let source0 = [(lit ''origin'', JStr origin)];
          source1 = (case command of
                       Some c \<Rightarrow>
                         if c \<noteq> [] then dict_set source0 (lit ''command'') (JList (redact_values env c))
                         else source0
                     | None \<Rightarrow> source0);
          source2 = (case source_paths of
                       Some ps \<Rightarrow>
                         if ps \<noteq> [] then dict_set source1 (lit ''paths'') (JList (redact_values env ps))
                         else source1
                     | None \<Rightarrow> source1);
          manifest0 =
            [(lit ''schema_version'', JStr SCHEMA_VERSION),
             (lit ''fixture_id'', JStr fixture_id),
             (lit ''domain'', JStr domain),
             (lit ''capture_time'', JStr capture_time),
             (lit ''source'', JDict source2),
             (lit ''tool_versions'', JDict (map (\<lambda>kv. (fst kv, JStr (snd kv))) tool_versions)),
             (lit ''redaction_profile'', JStr redaction_profile),
             (lit ''artifacts'', JList artifacts)];
          manifest1 = (case description of
                         Some d \<Rightarrow>
                           if d \<noteq> [] then dict_set manifest0 (lit ''description'') (JStr d)
                           else manifest0
                       | None \<Rightarrow> manifest0)
      in case canonical_manifest_bytes (JDict manifest1) of
           Inl e \<Rightarrow> Inl e
         | Inr data \<Rightarrow>
             Inr (JDict (dict_set manifest1 (lit ''manifest_sha256'') (JStr (sha256_bytes data)))))"

section \<open>Documents with the same mappings\<close>

text \<open>
  Two documents hold the same key-to-value mappings at every nesting level, whatever the
  insertion order of their dicts: scalars are equal, lists agree element by element, and
  dicts have the same keys with values that are related in turn.
\<close>

inductive same_mappings :: "json \<Rightarrow> json \<Rightarrow> bool" where
  "same_mappings JNull JNull"
| "same_mappings (JBool b) (JBool b)"
| "same_mappings (JInt i) (JInt i)"
| "same_mappings (JFloat t) (JFloat t)"
| "same_mappings (JStr s) (JStr s)"
| "list_all2 same_mappings xs ys \<Longrightarrow> same_mappings (JList xs) (JList ys)"
| "distinct (map fst a) \<Longrightarrow> distinct (map fst b) \<Longrightarrow> set (map fst a) = set (map fst b) \<Longrightarrow>
   (\<forall>k v w. (k, v) \<in> set a \<longrightarrow> (k, w) \<in> set b \<longrightarrow> same_mappings v w) \<Longrightarrow>
   same_mappings (JDict a) (JDict b)"

text \<open>The items of a dict with their values serialised.\<close>

definition dumped :: "(pystr \<times> json) list \<Rightarrow> (pystr \<times> pystr) list" where
  "dumped d = map (\<lambda>kv. (fst kv, dumps (snd kv))) d"

section \<open>Example inputs\<close>

text \<open>
  A world with an empty file system, without the optional \<open>jsonschema\<close> package, and in
  which the library functions accept nothing.
\<close>

definition bare_env :: env where
  "bare_env =
     \<lparr> fs = (\<lambda>p. None), json_loads = (\<lambda>s. None), fromisoformat_ok = (\<lambda>s. False),
       jsonschema = (\<lambda>p m. Unavailable), uni_alnum = (\<lambda>c. False), uni_digit = (\<lambda>c. None),
       str_repr = (\<lambda>s. s) \<rparr>"

text \<open>A digest with its first digit changed.\<close>

definition tamper :: "pystr \<Rightarrow> pystr" where
  "tamper h = (if hd h = 48 then 49 else 48) # tl h"

text \<open>
  A manifest that holds nothing but the digest of its canonical form \<open>{}\<close>, and the same
  with the digest tampered with; the errors that the fixture validator finds in both.
\<close>

definition closed_manifest :: "(pystr \<times> json) list" where
  "closed_manifest = [(lit ''manifest_sha256'', JStr (sha256_bytes [123, 125]))]"

definition tampered_manifest :: "(pystr \<times> json) list" where
  "tampered_manifest = [(lit ''manifest_sha256'', JStr (tamper (sha256_bytes [123, 125])))]"

definition structure_errors :: "pystr list" where
  "structure_errors =
     map lit
       [''missing required field: schema_version'', ''missing required field: fixture_id'',
        ''missing required field: domain'', ''missing required field: capture_time'',
        ''missing required field: source'', ''missing required field: tool_versions'',
        ''missing required field: redaction_profile'', ''missing required field: artifacts'',
        ''schema_version must be string'', ''fixture_id must be string'',
        ''domain must be string'', ''capture_time must be string'', ''source must be object'',
        ''tool_versions must be object'',
        ''redaction_profile must be one of minimal/safe/forensic/custom'',
        ''artifacts must be non-empty list'']"

text \<open>The same document built in two insertion orders.\<close>

definition doc_one :: "(pystr \<times> json) list" where
  "doc_one = [(lit ''b'', JInt 1), (lit ''a'', JDict [(lit ''y'', JStr [233]), (lit ''x'', JNull)])]"

definition doc_two :: "(pystr \<times> json) list" where
  "doc_two = [(lit ''a'', JDict [(lit ''x'', JNull), (lit ''y'', JStr [233])]), (lit ''b'', JInt 1)]"

text \<open>
  A world whose only file is \<open>a.txt\<close>, two bytes long; an entry that records it with a
  wrong size and a wrong digest; an entry for a file that is not there.
\<close>

definition one_file_env :: env where
  "one_file_env = bare_env \<lparr> fs := (\<lambda>p. if p = lit ''a.txt'' then Some (File [104, 105]) else None) \<rparr>"

definition truncated_entry :: "(pystr \<times> json) list" where
  "truncated_entry =
     [(lit ''path'', JStr (lit ''a.txt'')), (lit ''bytes'', JInt 3),
      (lit ''sha256'', JStr (tamper (sha256_bytes [104, 105]))),
      (lit ''redaction_profile'', JStr (lit ''safe''))]"

definition missing_entry :: "(pystr \<times> json) list" where
  "missing_entry =
     [(lit ''path'', JStr (lit ''b.txt'')), (lit ''bytes'', JInt 3),
      (lit ''sha256'', JStr (sha256_bytes [104, 105]))]"

text \<open>
  A fixture artifact entry for \<open>a.txt\<close> with the right size and digest and no
  \<open>redaction_profile\<close>; an end-to-end artifact of kind \<open>manifest\<close>; one of kind
  \<open>snapshot\<close> without \<open>redaction_profile\<close>.
\<close>

definition unprofiled_entry :: "(pystr \<times> json) list" where
  "unprofiled_entry =
     [(lit ''path'', JStr (lit ''a.txt'')), (lit ''bytes'', JInt 2),
      (lit ''sha256'', JStr (sha256_bytes [104, 105]))]"

definition manifest_kind_entry :: "(pystr \<times> json) list" where
  "manifest_kind_entry =
     [(lit ''kind'', JStr (lit ''manifest'')), (lit ''path'', JStr (lit ''a.txt'')),
      (lit ''redaction_profile'', JStr (lit ''safe''))]"

definition snapshot_entry :: "(pystr \<times> json) list" where
  "snapshot_entry = [(lit ''kind'', JStr (lit ''snapshot'')), (lit ''path'', JStr (lit ''b.txt''))]"

text \<open>A manifest whose only key is a malformed \<open>manifest_sha256\<close>.\<close>

definition malformed_manifest :: "(pystr \<times> json) list" where
  "malformed_manifest = [(lit ''manifest_sha256'', JStr (lit ''xyz''))]"

definition e2e_structure_errors :: "pystr list" where
  "e2e_structure_errors =
     map lit
       [''missing required field: schema_version'', ''missing required field: run_id'',
        ''missing required field: suite'', ''missing required field: test_id'',
        ''missing required field: timestamp'', ''missing required field: env'',
        ''missing required field: commands'', ''missing required field: logs'',
        ''missing required field: artifacts'', ''missing required field: metrics'',
        ''schema_version must be string'', ''run_id must be string'', ''suite must be string'',
        ''test_id must be string'', ''timestamp must be string'', ''env must be object'']"

text \<open>
  A world whose only file is \<open>m.json\<close> with the content \<open>[]\<close>, which \<open>json.loads\<close> reads as
  the empty list.
\<close>

definition array_file_env :: env where
  "array_file_env =
     bare_env \<lparr> fs := (\<lambda>p. if p = lit ''m.json'' then Some (File [91, 93]) else None),
                json_loads := (\<lambda>s. if s = lit ''[]'' then Some (JList []) else None) \<rparr>"

text \<open>
  A world whose only file is \<open>log.jsonl\<close> with the two lines \<open>{"run_id":"abc"}\<close> and
  \<open>{"run_id":"xyz"}\<close>, which \<open>json.loads\<close> reads as they are written; a log entry for it; a
  manifest with \<open>run_id\<close> \<open>abc\<close> and this one log.
\<close>

definition jsonl_env :: env where
  \<open>jsonl_env =
     bare_env
       \<lparr> fs := (\<lambda>p. if p = lit ''log.jsonl''
                    then Some (File [123, 34, 114, 117, 110, 95, 105, 100, 34, 58, 34, 97, 98, 99,
                                     34, 125, 10, 123, 34, 114, 117, 110, 95, 105, 100, 34, 58, 34,
                                     120, 121, 122, 34, 125, 10])
                    else None),
         json_loads := (\<lambda>s. if s = lit ''{"run_id":"abc"}''
                             then Some (JDict [(lit ''run_id'', JStr (lit ''abc''))])
                             else if s = lit ''{"run_id":"xyz"}''
                             then Some (JDict [(lit ''run_id'', JStr (lit ''xyz''))])
                             else None) \<rparr>\<close>

definition jsonl_entry :: "(pystr \<times> json) list" where
  "jsonl_entry = [(lit ''kind'', JStr (lit ''jsonl'')), (lit ''path'', JStr (lit ''log.jsonl''))]"

definition jsonl_manifest :: "(pystr \<times> json) list" where
  "jsonl_manifest =
     [(lit ''run_id'', JStr (lit ''abc'')), (lit ''logs'', JList [JDict jsonl_entry])]"

text \<open>
  The body of the loop over \<open>logs\<close> without its last statement, the JSONL check: what is
  left is the judgement of \<open>kind\<close> and \<open>validate_file_entry\<close>.
\<close>

definition log_entry_files_only :: "env \<Rightarrow> ppath \<Rightarrow> json \<Rightarrow> exn + pystr list" where
  "log_entry_files_only env base_dir entry =
     (case entry of
        JDict e \<Rightarrow>
          seqs
            [(case in_str_set (dget e (lit ''kind'')) LOG_KINDS of
                Inl x \<Rightarrow> Inl x
              | Inr b \<Rightarrow>
                  Inr (if \<not> b then [lit ''log kind invalid: '' @ py_str env (dget e (lit ''kind''))]
                       else [])),
             validate_file_entry env e base_dir (lit ''log'')]
      | _ \<Rightarrow> Inr [lit ''log entry must be object''])"

text \<open>A manifest without \<open>run_id\<close> whose one log is the JSONL file with the foreign line.\<close>

definition anonymous_manifest :: "(pystr \<times> json) list" where
  "anonymous_manifest = [(lit ''logs'', JList [JDict jsonl_entry])]"

definition anonymous_errors :: "pystr list" where
  "anonymous_errors =
     map lit
       [''missing required field: schema_version'', ''missing required field: run_id'',
        ''missing required field: suite'', ''missing required field: test_id'',
        ''missing required field: timestamp'', ''missing required field: env'',
        ''missing required field: commands'', ''missing required field: artifacts'',
        ''missing required field: metrics'', ''missing required field: manifest_sha256'',
        ''schema_version must be string'', ''run_id must be string'', ''suite must be string'',
        ''test_id must be string'', ''timestamp must be string'', ''env must be object'',
        ''manifest_sha256 must be string'', ''commands must be non-empty array'',
        ''log bytes missing for log.jsonl'', ''log sha256 invalid for log.jsonl'',
        ''artifacts must be array'']"

text \<open>
  A source block whose \<open>origin\<close> is a home path; one whose \<open>command\<close> holds a home path, a
  UUID and a long hexadecimal token.
\<close>

definition origin_only_source :: "(pystr \<times> json) list" where
  "origin_only_source = [(lit ''origin'', JStr (lit ''/Users/alice/project''))]"

definition unredacted_source :: "(pystr \<times> json) list" where
  "unredacted_source =
     [(lit ''origin'', JStr (lit ''manual'')),
      (lit ''command'',
       JList [JStr (lit ''/Users/alice/project''),
              JStr (lit ''123e4567-e89b-12d3-a456-426614174000''),
              JStr (lit ''0123456789abcdef0123456789abcdef'')])]"

section \<open>Basic facts\<close>

lemma lit_Nil [simp]: "lit [] = []"
  by (simp add: lit_def)

lemma lit_Cons: "lit (c # cs) = of_char c # lit cs"
  by (simp add: lit_def)

lemma lit_append: "lit (a @ b) = lit a @ lit b"
  by (simp add: lit_def)

lemma lit_append_lit: "lit a @ lit b @ x = lit (a @ b) @ x"
  by (simp add: lit_def)

lemma length_lit [simp]: "length (lit s) = length s"
  by (simp add: lit_def)

lemma lit_eq_iff [simp]: "lit a = lit b \<longleftrightarrow> a = b"
  unfolding lit_def by (rule inj_map_eq_map) (simp add: inj_on_def)

lemma seqs_Cons_Inr:
  "seqs (x # xs) = Inr es \<longleftrightarrow> (\<exists>a b. x = Inr a \<and> seqs xs = Inr b \<and> es = a @ b)"
  by (cases x) (auto split: sum.splits)

lemma seqs_Nil_Inr: "seqs [] = Inr es \<longleftrightarrow> es = []"
  by auto

lemma seqs_map_Inr [simp]: "seqs (map Inr xss) = Inr (concat xss)"
  by (induction xss) auto

lemma seqs_Inr_mem:
  "seqs xs = Inr es \<Longrightarrow> e \<in> set es \<Longrightarrow> \<exists>x \<in> set xs. \<exists>ys. x = Inr ys \<and> e \<in> set ys"
  by (induction xs arbitrary: es) (auto simp: seqs_Cons_Inr)

lemma seqs_Inr_sub:
  "seqs xs = Inr es \<Longrightarrow> x \<in> set xs \<Longrightarrow> \<exists>ys. x = Inr ys \<and> set ys \<subseteq> set es"
  by (induction xs arbitrary: es) (fastforce simp: seqs_Cons_Inr)+

lemma sha_round_length [simp]: "length (sha_round st kw) = length st"
  by (cases "(st, kw)" rule: sha_round.cases) (simp_all add: Let_def)

lemma foldl_sha_round_length [simp]: "length (foldl sha_round st kws) = length st"
  by (induction kws arbitrary: st) simp_all

lemma compress_length [simp]: "length (compress hs b) = length hs"
  by (simp add: compress_def Let_def)

lemma foldl_compress_length [simp]: "length (foldl compress hs bs) = length hs"
  by (induction bs arbitrary: hs) simp_all

lemma sha256_length [simp]: "length (sha256 m) = 8"
  by (simp add: sha256_def Let_def sha_H0_def)

lemma hexdigit_lower: "d < 16 \<Longrightarrow> is_lower_hex (hexdigit d)"
  by (auto simp: is_lower_hex_def is_digit_def hexdigit_def)

lemma nibble_bound: "unat ((w :: w32) AND 15) < 16"
proof -
  have "unat (w AND 15) \<le> unat (15 :: w32)"
    by (rule word_and_le1 [THEN word_le_nat_alt [THEN iffD1]])
  then show ?thesis by simp
qed

lemma hex32_length [simp]: "length (hex32 w) = 8"
  by (simp add: hex32_def)

lemma hex32_lower: "list_all is_lower_hex (hex32 w)"
  by (simp add: hex32_def list_all_iff hexdigit_lower nibble_bound)

lemma concat_hex32_length: "length (concat (map hex32 ws)) = 8 * length ws"
  by (induction ws) simp_all

lemma sha256_bytes_length [simp]: "length (sha256_bytes data) = 64"
  by (simp add: sha256_bytes_def concat_hex32_length)

lemma sha256_bytes_lower: "list_all is_lower_hex (sha256_bytes data)"
  by (simp add: sha256_bytes_def list_all_iff) (use hex32_lower in \<open>auto simp: list_all_iff\<close>)

lemma sha256_re_sha256_bytes [simp]: "sha256_re (sha256_bytes data)"
  by (simp add: sha256_re_def sha256_bytes_lower)

subsection \<open>Dictionaries\<close>

lemma dict_pop_replace:
  "dict_pop (map (\<lambda>kv. if fst kv = k then (k, v) else kv) d) k = dict_pop d k"
  by (induction d) (simp_all add: dict_pop_def)

lemma dict_pop_dict_set [simp]: "dict_pop (dict_set d k v) k = dict_pop d k"
  by (simp add: dict_set_def dict_pop_replace) (simp add: dict_pop_def)

lemma map_of_replace:
  "k \<in> fst ` set d \<Longrightarrow> map_of (map (\<lambda>kv. if fst kv = k then (k, v) else kv) d) k = Some v"
  by (induction d) auto

lemma map_of_snoc_new: "k \<notin> fst ` set d \<Longrightarrow> map_of (d @ [(k, v)]) k = Some v"
  by (induction d) auto

lemma dget_dict_set [simp]: "dget (dict_set d k v) k = v"
  by (simp add: dget_def dict_set_def dhas_def map_of_replace map_of_snoc_new del: map_of_append)

subsection \<open>First letters of the messages of each step\<close>

lemma schema_errors_tag:
  "validate_schema_with_jsonschema env m sp = Inr es \<Longrightarrow> e \<in> set es \<Longrightarrow> take 3 e = lit ''sch''"
  by (auto simp: validate_schema_with_jsonschema_def lit_Cons split: schema_outcome.splits)

lemma require_field_tag:
  "require_field m f = Inr es \<Longrightarrow> e \<in> set es \<Longrightarrow> take 3 e = lit ''mis''"
  by (auto simp: require_field_def lit_Cons split: sum.splits if_splits)

lemma require_fields_tag:
  assumes "seqs (map (require_field m) fds) = Inr es" and "e \<in> set es"
  shows "take 3 e = lit ''mis''"
proof -
  from seqs_Inr_mem [OF assms] obtain f ys where "require_field m f = Inr ys" "e \<in> set ys"
    by auto
  then show ?thesis by (rule require_field_tag)
qed

lemma check_schema_version_tag:
  "e \<in> set (check_schema_version env m) \<Longrightarrow> take 3 e = lit ''sch'' \<or> take 3 e = lit ''uns''"
  by (auto simp: check_schema_version_def validate_version_def lit_Cons
      split: json.splits option.splits if_splits)

lemma must_be_string_mem:
  "e \<in> set (must_be_string d k label) \<Longrightarrow> e = label @ lit '' must be string''"
  by (auto simp: must_be_string_def split: if_splits)

lemma check_redaction_tag:
  "e \<in> set (check_redaction env v label) \<Longrightarrow> \<exists>r. e = label @ r"
  by (auto simp: check_redaction_def split: if_splits)

lemma source_item_tag: "e \<in> set (source_item env key p) \<Longrightarrow> take 3 e = lit ''sou''"
  by (cases "snd p")
     (auto simp: source_item_def source_label_def lit_Cons check_redaction_def split: if_splits)

lemma source_key_tag: "e \<in> set (source_key env source key) \<Longrightarrow> take 3 e = lit ''sou''"
  by (auto simp: source_key_def lit_Cons split: json.splits dest: source_item_tag)

lemma validate_source_tag: "e \<in> set (validate_source env source) \<Longrightarrow> take 3 e = lit ''sou''"
  by (auto simp: validate_source_def lit_Cons split: json.splits if_splits dest: source_key_tag)

lemma tool_version_item_tag: "e \<in> set (tool_version_item kv) \<Longrightarrow> take 3 e = lit ''too''"
  by (cases "snd kv") (auto simp: tool_version_item_def lit_Cons split: if_splits)

lemma validate_tool_versions_tag:
  "e \<in> set (validate_tool_versions tv) \<Longrightarrow> take 3 e = lit ''too''"
  by (auto simp: validate_tool_versions_def dest: tool_version_item_tag)

lemma bytes_check_tag:
  "e \<in> set (bytes_check env label pv eb ab) \<Longrightarrow> \<exists>r. e = label @ r"
  by (auto simp: bytes_check_def split: if_splits)

lemma sha256_check_tag:
  "e \<in> set (sha256_check label pv eh ah) \<Longrightarrow> \<exists>r. e = label @ r"
  by (auto simp: sha256_check_def split: if_splits json.splits)

lemma validate_artifact_entry_tag:
  "validate_artifact_entry env entry base = Inr es \<Longrightarrow> e \<in> set es \<Longrightarrow> take 3 e = lit ''art''"
  by (auto simp: validate_artifact_entry_def Let_def lit_Cons seqs_Cons_Inr
      split: json.splits if_splits option.splits sum.splits
      dest!: bytes_check_tag sha256_check_tag)

lemma fixture_artifacts_tag:
  assumes "fixture_artifacts env m mp = Inr es" and "e \<in> set es"
  shows "take 3 e = lit ''art''"
proof (cases "dget m (lit ''artifacts'')")
  case (JList artifacts)
  show ?thesis
  proof (cases "artifacts = []")
    case True
    with JList assms show ?thesis by (auto simp: fixture_artifacts_def lit_Cons)
  next
    case False
    with JList assms have
      "seqs (map (\<lambda>entry. case entry of
                    JDict e \<Rightarrow> validate_artifact_entry env e (parent mp)
                  | _ \<Rightarrow> Inr [lit ''artifact entry must be object'']) artifacts) = Inr es"
      by (simp add: fixture_artifacts_def)
    from seqs_Inr_mem [OF this assms(2)] obtain x ys where
      "(case x of
          JDict e \<Rightarrow> validate_artifact_entry env e (parent mp)
        | _ \<Rightarrow> Inr [lit ''artifact entry must be object'']) = Inr ys" and "e \<in> set ys"
      by auto
    then show ?thesis
      by (cases x) (auto simp: lit_Cons dest: validate_artifact_entry_tag)
  qed
qed (use assms in \<open>auto simp: fixture_artifacts_def lit_Cons\<close>)

lemma fixture_self_hash_cases:
  "fixture_self_hash m = Inr es \<Longrightarrow>
     es = [] \<or> es = [lit ''manifest_sha256 mismatch'']
     \<or> es = [lit ''manifest_sha256 must be sha256 hex'']"
  by (auto simp: fixture_self_hash_def split: json.splits if_splits sum.splits)

text \<open>
  The errors of the fixture validator on a dict, by step: everything before the last
  block starts differently from the two messages of that block.
\<close>

lemma validate_manifest_split:
  assumes "validate_manifest env (JDict m) mp sp = Inr errs"
  shows "\<exists>pre hs. errs = pre @ hs \<and> fixture_self_hash m = Inr hs
           \<and> (\<forall>e \<in> set pre. take 3 e \<noteq> lit ''man'')"
proof -
  from assms obtain a b c1 c2 c3 c4 c5 c6 c7 c8 hs where
    a: "validate_schema_with_jsonschema env (JDict m) sp = Inr a" and
    b: "seqs (map (require_field (JDict m)) fixture_fields) = Inr b" and
    c7: "(case in_str_set (dget m (lit ''redaction_profile'')) REDACTION_PROFILES of
            Inl e \<Rightarrow> Inl e
          | Inr b \<Rightarrow>
              Inr (if \<not> b
                   then [lit ''redaction_profile must be one of minimal/safe/forensic/custom'']
                   else [])) = Inr c7" and
    c8: "fixture_artifacts env m mp = Inr c8" and
    hs: "fixture_self_hash m = Inr hs" and
    errs: "errs = a @ b @ check_schema_version env m
                  @ must_be_string m (lit ''fixture_id'') (lit ''fixture_id'')
                  @ must_be_string m (lit ''domain'') (lit ''domain'')
                  @ c4 @ c5 @ c6 @ c7 @ c8 @ hs" and
    c4: "c4 = (case dget m (lit ''capture_time'') of
                 JStr capture_time \<Rightarrow>
                   if \<not> parse_rfc3339 env capture_time
                   then [lit ''capture_time must be RFC3339 timestamp''] else []
               | _ \<Rightarrow> [lit ''capture_time must be string''])" and
    c5: "c5 = (case dget m (lit ''source'') of
                 JDict source \<Rightarrow> validate_source env source
               | _ \<Rightarrow> [lit ''source must be object''])" and
    c6: "c6 = (case dget m (lit ''tool_versions'') of
                 JDict tool_versions \<Rightarrow> validate_tool_versions tool_versions
               | _ \<Rightarrow> [lit ''tool_versions must be object''])"
    unfolding validate_manifest_def
    by (auto simp: seqs_Cons_Inr seqs_Nil_Inr simp del: seqs.simps)
  have "\<forall>e \<in> set a. take 3 e \<noteq> lit ''man''"
    using schema_errors_tag [OF a] by auto
  moreover have "\<forall>e \<in> set b. take 3 e \<noteq> lit ''man''"
    using require_fields_tag [OF b] by auto
  moreover have "\<forall>e \<in> set (check_schema_version env m). take 3 e \<noteq> lit ''man''"
    by (auto dest!: check_schema_version_tag)
  moreover have "\<forall>e \<in> set (must_be_string m (lit ''fixture_id'') (lit ''fixture_id'')).
      take 3 e \<noteq> lit ''man''"
    by (auto dest!: must_be_string_mem simp: lit_Cons)
  moreover have "\<forall>e \<in> set (must_be_string m (lit ''domain'') (lit ''domain'')).
      take 3 e \<noteq> lit ''man''"
    by (auto dest!: must_be_string_mem simp: lit_Cons)
  moreover have "\<forall>e \<in> set c4. take 3 e \<noteq> lit ''man''"
    unfolding c4 by (auto simp: lit_Cons split: json.splits if_splits)
  moreover have "\<forall>e \<in> set c5. take 3 e \<noteq> lit ''man''"
    unfolding c5 by (auto simp: lit_Cons split: json.splits dest!: validate_source_tag)
  moreover have "\<forall>e \<in> set c6. take 3 e \<noteq> lit ''man''"
    unfolding c6 by (auto simp: lit_Cons split: json.splits dest!: validate_tool_versions_tag)
  moreover have "\<forall>e \<in> set c7. take 3 e \<noteq> lit ''man''"
    using c7 by (auto simp: lit_Cons split: sum.splits if_splits)
  moreover have "\<forall>e \<in> set c8. take 3 e \<noteq> lit ''man''"
    using fixture_artifacts_tag [OF c8] by auto
  ultimately have "\<forall>e \<in> set (a @ b @ check_schema_version env m
                  @ must_be_string m (lit ''fixture_id'') (lit ''fixture_id'')
                  @ must_be_string m (lit ''domain'') (lit ''domain'')
                  @ c4 @ c5 @ c6 @ c7 @ c8). take 3 e \<noteq> lit ''man''"
    by (simp add: ball_Un)
  with hs errs show ?thesis
    by (intro exI [of _ "a @ b @ check_schema_version env m
                  @ must_be_string m (lit ''fixture_id'') (lit ''fixture_id'')
                  @ must_be_string m (lit ''domain'') (lit ''domain'')
                  @ c4 @ c5 @ c6 @ c7 @ c8"] exI [of _ hs]) simp
qed

section \<open>Canonical-hash closure\<close>

lemma fixture_self_hash_closed:
  assumes "canonical_manifest_bytes (JDict m) = Inr data"
    and "dget m (lit ''manifest_sha256'') = JStr (sha256_bytes data)"
  shows "fixture_self_hash m = Inr []"
  using assms by (simp add: fixture_self_hash_def)

lemma fixture_self_hash_differs:
  assumes "canonical_manifest_bytes (JDict m) = Inr data"
    and "dget m (lit ''manifest_sha256'') = JStr s" and "sha256_re s" and "s \<noteq> sha256_bytes data"
  shows "fixture_self_hash m = Inr [lit ''manifest_sha256 mismatch'']"
  using assms by (simp add: fixture_self_hash_def)

lemma build_manifest_shape:
  assumes "build_manifest env fixture_id dmn description capture_time origin command source_paths tool_versions redaction_profile artifacts = Inr built"
  shows "\<exists>b0 d. canonical_manifest_bytes (JDict b0) = Inr d
           \<and> built = JDict (dict_set b0 (lit ''manifest_sha256'') (JStr (sha256_bytes d)))"
  using assms unfolding build_manifest_def Let_def by (auto split: sum.splits)

lemma canonical_dict_set:
  "canonical_manifest_bytes (JDict (dict_set d (lit ''manifest_sha256'') v))
     = canonical_manifest_bytes (JDict d)"
  by simp

text \<open>
  Claim C1. In the fixture validator (and in the same block of the end-to-end validator), a
  manifest whose \<open>manifest_sha256\<close> is the SHA-256 hex digest of its canonical bytes
  passes the self-hash check: no \<open>manifest_sha256 mismatch\<close> is among the reported errors.
  When the stored value matches \<open>SHA256_RE\<close> but differs from the recomputed digest, the
  mismatch is reported. Every manifest that \<open>build_manifest\<close> returns is closed in this
  sense.
\<close>

theorem canonical_hash_closure:
  "(canonical_manifest_bytes (JDict m) = Inr data \<longrightarrow>
    dget m (lit ''manifest_sha256'') = JStr (sha256_bytes data) \<longrightarrow>
      fixture_self_hash m = Inr [] \<and> e2e_self_hash m = Inr []
      \<and> (validate_manifest env (JDict m) mp sp = Inr errs \<longrightarrow>
           lit ''manifest_sha256 mismatch'' \<notin> set errs))
   \<and> (canonical_manifest_bytes (JDict m) = Inr data \<longrightarrow>
      dget m (lit ''manifest_sha256'') = JStr s \<longrightarrow> sha256_re s \<longrightarrow> s \<noteq> sha256_bytes data \<longrightarrow>
      fixture_self_hash m = Inr [lit ''manifest_sha256 mismatch'']
      \<and> e2e_self_hash m =
          Inr [lit ''manifest_sha256 mismatch: expected '' @ s @ lit '', got '' @ sha256_bytes data]
      \<and> (validate_manifest env (JDict m) mp sp = Inr errs \<longrightarrow>
           lit ''manifest_sha256 mismatch'' \<in> set errs))
   \<and> (build_manifest env fixture_id dmn description capture_time origin command source_paths tool_versions redaction_profile artifacts = Inr built \<longrightarrow>
      (\<exists>b d. built = JDict b \<and> canonical_manifest_bytes built = Inr d
             \<and> dget b (lit ''manifest_sha256'') = JStr (sha256_bytes d)
             \<and> fixture_self_hash b = Inr []))"
proof (intro conjI impI)
  assume c: "canonical_manifest_bytes (JDict m) = Inr data"
    and g: "dget m (lit ''manifest_sha256'') = JStr (sha256_bytes data)"
  show fx: "fixture_self_hash m = Inr []"
    using c g by (rule fixture_self_hash_closed)
  show "e2e_self_hash m = Inr []"
    using c g by (simp add: e2e_self_hash_def)
  assume "validate_manifest env (JDict m) mp sp = Inr errs"
  from validate_manifest_split [OF this] fx
  show "lit ''manifest_sha256 mismatch'' \<notin> set errs"
    by (auto simp: lit_Cons)
next
  assume c: "canonical_manifest_bytes (JDict m) = Inr data"
    and g: "dget m (lit ''manifest_sha256'') = JStr s" and w: "sha256_re s"
    and n: "s \<noteq> sha256_bytes data"
  show fx: "fixture_self_hash m = Inr [lit ''manifest_sha256 mismatch'']"
    using c g w n by (rule fixture_self_hash_differs)
  show "e2e_self_hash m =
          Inr [lit ''manifest_sha256 mismatch: expected '' @ s @ lit '', got '' @ sha256_bytes data]"
    using c g w n by (simp add: e2e_self_hash_def)
  assume "validate_manifest env (JDict m) mp sp = Inr errs"
  from validate_manifest_split [OF this] fx
  show "lit ''manifest_sha256 mismatch'' \<in> set errs"
    by auto
next
  assume "build_manifest env fixture_id dmn description capture_time origin command source_paths tool_versions redaction_profile artifacts = Inr built"
  from build_manifest_shape [OF this] obtain b0 d where
    d: "canonical_manifest_bytes (JDict b0) = Inr d" and
    b: "built = JDict (dict_set b0 (lit ''manifest_sha256'') (JStr (sha256_bytes d)))"
    by blast
  have c: "canonical_manifest_bytes built = Inr d"
    unfolding b using d by (simp only: canonical_dict_set)
  have "fixture_self_hash (dict_set b0 (lit ''manifest_sha256'') (JStr (sha256_bytes d))) = Inr []"
    using c unfolding b by (rule fixture_self_hash_closed) simp
  with b c show "\<exists>b d. built = JDict b \<and> canonical_manifest_bytes built = Inr d
             \<and> dget b (lit ''manifest_sha256'') = JStr (sha256_bytes d)
             \<and> fixture_self_hash b = Inr []"
    by auto
qed

lemma tampered_digest:
  "sha256_re (tamper (sha256_bytes d)) \<and> tamper (sha256_bytes d) \<noteq> sha256_bytes d"
proof -
  obtain c cs where h: "sha256_bytes d = c # cs"
    by (cases "sha256_bytes d") (use sha256_bytes_length [of d] in auto)
  have "length cs = 63"
    using sha256_bytes_length [of d] h by simp
  moreover have "list_all is_lower_hex cs"
    using sha256_bytes_lower [of d] h by simp
  ultimately show ?thesis
    by (simp add: h tamper_def sha256_re_def is_lower_hex_def is_digit_def)
qed

lemma canonical_only_digest:
  "canonical_manifest_bytes (JDict [(lit ''manifest_sha256'', v)]) = Inr [123, 125]"
  by (simp add: dict_pop_def encode_utf8_def utf8_char_def lit_Cons)

lemma validate_closed_manifest:
  "validate_manifest bare_env (JDict closed_manifest) (Path (lit ''m.json'')) (Path (lit ''s.json''))
     = Inr structure_errors"
  by (simp add: validate_manifest_def validate_schema_with_jsonschema_def bare_env_def
        closed_manifest_def structure_errors_def
        fixture_fields_def require_field_def dhas_def dget_def check_schema_version_def
        must_be_string_def fixture_artifacts_def fixture_self_hash_def canonical_only_digest
        lit_append [symmetric] del: canonical_manifest_bytes.simps)

lemma validate_tampered_manifest:
  "validate_manifest bare_env (JDict tampered_manifest) (Path (lit ''m.json''))
     (Path (lit ''s.json'')) = Inr (structure_errors @ [lit ''manifest_sha256 mismatch''])"
  using tampered_digest [of "[123, 125]"]
  by (simp add: validate_manifest_def validate_schema_with_jsonschema_def bare_env_def
        tampered_manifest_def structure_errors_def
        fixture_fields_def require_field_def dhas_def dget_def check_schema_version_def
        must_be_string_def fixture_artifacts_def fixture_self_hash_def canonical_only_digest
        lit_append [symmetric] del: canonical_manifest_bytes.simps)

lemma build_manifest_example:
  \<open>build_manifest bare_env (lit ''f'') (lit ''d'') None (lit ''t'') (lit ''o'') None None []
     (lit ''safe'') [] =
   Inr (JDict
       [(lit ''schema_version'', JStr (lit ''1.0.0'')), (lit ''fixture_id'', JStr (lit ''f'')),
        (lit ''domain'', JStr (lit ''d'')), (lit ''capture_time'', JStr (lit ''t'')),
        (lit ''source'', JDict [(lit ''origin'', JStr (lit ''o''))]),
        (lit ''tool_versions'', JDict []), (lit ''redaction_profile'', JStr (lit ''safe'')),
        (lit ''artifacts'', JList []),
        (lit ''manifest_sha256'', JStr (sha256_bytes (map of_char
   ''{"artifacts":[],"capture_time":"t","domain":"d","fixture_id":"f","redaction_profile":"safe","schema_version":"1.0.0","source":{"origin":"o"},"tool_versions":{}}'')))])\<close>
  by (simp add: build_manifest_def SCHEMA_VERSION_def dict_set_def dhas_def dict_pop_def
       encode_utf8_def utf8_char_def lit_Cons dumps_str_def escape_char_def)

theorem canonical_hash_closure_witness:
  "(canonical_manifest_bytes (JDict closed_manifest) = Inr [123, 125]
    \<and> dget closed_manifest (lit ''manifest_sha256'') = JStr (sha256_bytes [123, 125])
    \<and> validate_manifest bare_env (JDict closed_manifest) (Path (lit ''m.json''))
         (Path (lit ''s.json'')) = Inr structure_errors
    \<and> fixture_self_hash closed_manifest = Inr [] \<and> e2e_self_hash closed_manifest = Inr []
    \<and> lit ''manifest_sha256 mismatch'' \<notin> set structure_errors)
   \<and> (canonical_manifest_bytes (JDict tampered_manifest) = Inr [123, 125]
    \<and> dget tampered_manifest (lit ''manifest_sha256'') = JStr (tamper (sha256_bytes [123, 125]))
    \<and> sha256_re (tamper (sha256_bytes [123, 125]))
    \<and> tamper (sha256_bytes [123, 125]) \<noteq> sha256_bytes [123, 125]
    \<and> validate_manifest bare_env (JDict tampered_manifest) (Path (lit ''m.json''))
         (Path (lit ''s.json'')) = Inr (structure_errors @ [lit ''manifest_sha256 mismatch''])
    \<and> fixture_self_hash tampered_manifest = Inr [lit ''manifest_sha256 mismatch'']
    \<and> lit ''manifest_sha256 mismatch'' \<in> set (structure_errors @ [lit ''manifest_sha256 mismatch'']))
   \<and> (\<exists>built b d.
         build_manifest bare_env (lit ''f'') (lit ''d'') None (lit ''t'') (lit ''o'') None None []
           (lit ''safe'') [] = Inr built
         \<and> built = JDict b \<and> canonical_manifest_bytes built = Inr d
         \<and> dget b (lit ''manifest_sha256'') = JStr (sha256_bytes d)
         \<and> fixture_self_hash b = Inr [])"
proof -
  have c1: "canonical_manifest_bytes (JDict closed_manifest) = Inr [123, 125]"
    unfolding closed_manifest_def by (rule canonical_only_digest)
  have g1: "dget closed_manifest (lit ''manifest_sha256'') = JStr (sha256_bytes [123, 125])"
    by (simp add: closed_manifest_def dget_def)
  have c2: "canonical_manifest_bytes (JDict tampered_manifest) = Inr [123, 125]"
    unfolding tampered_manifest_def by (rule canonical_only_digest)
  have g2: "dget tampered_manifest (lit ''manifest_sha256'')
              = JStr (tamper (sha256_bytes [123, 125]))"
    by (simp add: tampered_manifest_def dget_def)
  note t = tampered_digest [of "[123, 125]"]
  note first = canonical_hash_closure
    [where m = closed_manifest and data = "[123, 125]" and env = bare_env
       and mp = "Path (lit ''m.json'')" and sp = "Path (lit ''s.json'')"
       and errs = structure_errors, THEN conjunct1, rule_format, OF c1 g1]
  note second = canonical_hash_closure
    [where m = tampered_manifest and data = "[123, 125]" and env = bare_env
       and s = "tamper (sha256_bytes [123, 125])"
       and mp = "Path (lit ''m.json'')" and sp = "Path (lit ''s.json'')"
       and errs = "structure_errors @ [lit ''manifest_sha256 mismatch'']",
     THEN conjunct2, THEN conjunct1, rule_format, OF c2 g2 conjunct1 [OF t] conjunct2 [OF t]]
  note third = canonical_hash_closure
    [THEN conjunct2, THEN conjunct2, rule_format, OF build_manifest_example]
  show ?thesis
    using c1 g1 c2 g2 t first second third validate_closed_manifest validate_tampered_manifest
      build_manifest_example
    by (intro conjI) (simp_all del: canonical_manifest_bytes.simps)
qed

section \<open>Key-order independence\<close>

lemma insort_key_map_preserve:
  "(\<And>x. g (h x) = f x) \<Longrightarrow> insort_key g (h x) (map h xs) = map h (insort_key f x xs)"
  by (induction xs) simp_all

lemma sort_key_map_preserve:
  "(\<And>x. g (h x) = f x) \<Longrightarrow> sort_key g (map h xs) = map h (sort_key f xs)"
  by (induction xs) (simp_all add: insort_key_map_preserve)

lemma map_eq_of_list_all2: "list_all2 (\<lambda>x y. f x = f y) xs ys \<Longrightarrow> map f xs = map f ys"
  by (induction rule: list_all2_induct) auto

lemma dumps_JDict_dumped:
  "dumps (JDict d) =
     lit ''{'' @ join (lit '','') (map (\<lambda>kt. dumps_str (fst kt) @ lit '':'' @ snd kt)
                                     (sort_key fst (dumped d))) @ lit ''}''"
  by (simp add: dumped_def comp_def
        sort_key_map_preserve [of fst "\<lambda>kv. (fst kv, dumps (snd kv))" fst])

lemma dumped_set_eq:
  assumes da: "distinct (map fst a)" and db: "distinct (map fst b)"
    and keys: "set (map fst a) = set (map fst b)"
    and vals: "\<And>k v w. (k, v) \<in> set a \<Longrightarrow> (k, w) \<in> set b \<Longrightarrow> dumps v = dumps w"
  shows "set (dumped a) \<subseteq> set (dumped b)"
proof
  fix kt assume "kt \<in> set (dumped a)"
  then obtain k v where kv: "(k, v) \<in> set a" and kt: "kt = (k, dumps v)"
    by (auto simp: dumped_def)
  from kv keys have "k \<in> set (map fst b)" by force
  then obtain w where kw: "(k, w) \<in> set b" by auto
  with kv vals have "dumps v = dumps w" by blast
  with kw kt show "kt \<in> set (dumped b)"
    by (force simp: dumped_def)
qed

lemma distinct_dumped: "distinct (map fst d) \<Longrightarrow> distinct (dumped d)"
  by (simp add: dumped_def distinct_map inj_on_def)

lemma fst_dumped [simp]: "map fst (dumped d) = map fst d"
  by (simp add: dumped_def comp_def)

lemma sorted_dumped_eq:
  assumes da: "distinct (map fst a)" and db: "distinct (map fst b)"
    and keys: "set (map fst a) = set (map fst b)"
    and vals: "\<And>k v w. (k, v) \<in> set a \<Longrightarrow> (k, w) \<in> set b \<Longrightarrow> dumps v = dumps w"
  shows "sort_key fst (dumped a) = sort_key fst (dumped b)"
proof (rule sort_key_eq_sort_key)
  have ab: "set (dumped a) \<subseteq> set (dumped b)"
    by (rule dumped_set_eq [OF da db keys vals])
  have ba: "set (dumped b) \<subseteq> set (dumped a)"
    by (rule dumped_set_eq [OF db da keys [symmetric]]) (rule vals [symmetric])
  have "set (dumped a) = set (dumped b)"
    using ab ba by (rule subset_antisym)
  then show "mset (dumped a) = mset (dumped b)"
    using distinct_dumped [OF da] distinct_dumped [OF db]
    by (simp add: set_eq_iff_mset_eq_distinct)
  have "distinct (map fst (dumped a))" using da by simp
  then show "inj_on fst (set (dumped a))"
    unfolding distinct_map by (rule conjunct2)
qed

lemma same_mappings_dumps: "same_mappings x y \<Longrightarrow> dumps x = dumps y"
proof (induction rule: same_mappings.induct)
  case (6 xs ys)
  then have "list_all2 (\<lambda>x y. dumps x = dumps y) xs ys"
    by (simp add: list_all2_conv_all_nth)
  then have "map dumps xs = map dumps ys" by (rule map_eq_of_list_all2)
  then show ?case by simp
next
  case (7 a b)
  have "sort_key fst (dumped a) = sort_key fst (dumped b)"
    using 7 by (intro sorted_dumped_eq) auto
  then show ?case by (simp only: dumps_JDict_dumped)
qed simp_all

lemma same_mappings_pop:
  assumes "same_mappings (JDict a) (JDict b)"
  shows "same_mappings (JDict (dict_pop a k)) (JDict (dict_pop b k))"
  using assms
proof (cases rule: same_mappings.cases)
  case 7
  then show ?thesis
    by (intro same_mappings.intros) (auto simp: dict_pop_def distinct_map_filter)
qed

lemma dumps_JDict_sorted:
  "\<exists>items. dumps (JDict a) =
       lit ''{'' @ join (lit '','') (map (\<lambda>kv. dumps_str (fst kv) @ lit '':'' @ dumps (snd kv)) items)
       @ lit ''}''
     \<and> sorted (map fst items) \<and> mset items = mset a"
  by (rule exI [of _ "sort_key fst a"]) simp

lemma dhas_dict_pop [simp]: "\<not> dhas (dict_pop a k) k"
  by (auto simp: dhas_def dict_pop_def)

lemma dict_pop_idem [simp]: "dict_pop (dict_pop a k) k = dict_pop a k"
  by (simp add: dict_pop_def)

lemma escape_char_plain: "0x20 \<le> c \<Longrightarrow> c \<noteq> 0x22 \<Longrightarrow> c \<noteq> 0x5C \<Longrightarrow> escape_char c = [c]"
  by (simp add: escape_char_def)

text \<open>
  Claim C2. Two manifest documents with the same key-to-value mappings at every nesting
  level have the same canonical bytes, whatever the insertion order. The
  \<open>manifest_sha256\<close> key is left out (its value does not matter), the items of every dict
  are emitted sorted by key with \<open>,\<close> and \<open>:\<close> as the only separators, and a character
  beyond ASCII is written as itself, in UTF-8.
\<close>

theorem key_order_independence:
  "(same_mappings (JDict a) (JDict b) \<longrightarrow>
      canonical_manifest_bytes (JDict a) = canonical_manifest_bytes (JDict b))
   \<and> (same_mappings x y \<longrightarrow> dumps x = dumps y)
   \<and> canonical_manifest_bytes (JDict (dict_set a (lit ''manifest_sha256'') v))
       = canonical_manifest_bytes (JDict (dict_pop a (lit ''manifest_sha256'')))
   \<and> \<not> dhas (dict_pop a (lit ''manifest_sha256'')) (lit ''manifest_sha256'')
   \<and> (\<exists>items. dumps (JDict a) =
          lit ''{'' @ join (lit '','')
                        (map (\<lambda>kv. dumps_str (fst kv) @ lit '':'' @ dumps (snd kv)) items)
          @ lit ''}''
        \<and> sorted (map fst items) \<and> mset items = mset a)
   \<and> (0x80 \<le> c \<longrightarrow>
        dumps (JStr [c]) = [0x22, c, 0x22]
        \<and> encode_utf8 (dumps (JStr [c])) = seqs [Inr [0x22], utf8_char c, Inr [0x22]])"
proof (intro conjI impI)
  show "same_mappings (JDict a) (JDict b) \<Longrightarrow>
      canonical_manifest_bytes (JDict a) = canonical_manifest_bytes (JDict b)"
    using same_mappings_dumps [OF same_mappings_pop] by simp
  show "same_mappings x y \<Longrightarrow> dumps x = dumps y"
    by (rule same_mappings_dumps)
  show "canonical_manifest_bytes (JDict (dict_set a (lit ''manifest_sha256'') v))
       = canonical_manifest_bytes (JDict (dict_pop a (lit ''manifest_sha256'')))"
    by simp
  show "\<not> dhas (dict_pop a (lit ''manifest_sha256'')) (lit ''manifest_sha256'')"
    by simp
  show "\<exists>items. dumps (JDict a) =
          lit ''{'' @ join (lit '','')
                        (map (\<lambda>kv. dumps_str (fst kv) @ lit '':'' @ dumps (snd kv)) items)
          @ lit ''}''
        \<and> sorted (map fst items) \<and> mset items = mset a"
    by (rule dumps_JDict_sorted)
  assume c: "0x80 \<le> c"
  then show d: "dumps (JStr [c]) = [0x22, c, 0x22]"
    by (simp add: dumps_str_def escape_char_plain)
  show "encode_utf8 (dumps (JStr [c])) = seqs [Inr [0x22], utf8_char c, Inr [0x22]]"
    unfolding d by (simp add: encode_utf8_def utf8_char_def)
qed

lemma same_mappings_docs: "same_mappings (JDict doc_one) (JDict doc_two)"
  unfolding doc_one_def doc_two_def
  by (auto intro!: same_mappings.intros)

lemma canonical_doc_two:
  "canonical_manifest_bytes (JDict doc_two) =
     Inr [123, 34, 97, 34, 58, 123, 34, 120, 34, 58, 110, 117, 108, 108, 44, 34, 121, 34, 58, 34,
          195, 169, 34, 125, 44, 34, 98, 34, 58, 49, 125]"
  by (simp add: doc_two_def dict_pop_def encode_utf8_def utf8_char_def lit_Cons dumps_str_def
        escape_char_def str_int_def dec.simps)

theorem key_order_independence_witness:
  "same_mappings (JDict doc_one) (JDict doc_two)
   \<and> canonical_manifest_bytes (JDict doc_one) = canonical_manifest_bytes (JDict doc_two)
   \<and> dumps (JDict doc_one) = dumps (JDict doc_two)
   \<and> canonical_manifest_bytes (JDict doc_two) =
       Inr [123, 34, 97, 34, 58, 123, 34, 120, 34, 58, 110, 117, 108, 108, 44, 34, 121, 34, 58,
            34, 195, 169, 34, 125, 44, 34, 98, 34, 58, 49, 125]
   \<and> (0x80::nat) \<le> 233 \<and> dumps (JStr [233]) = [0x22, 233, 0x22]
   \<and> encode_utf8 (dumps (JStr [233])) = Inr [0x22, 195, 169, 0x22]"
proof -
  note k = key_order_independence
    [where a = doc_one and b = doc_two and x = "JDict doc_one" and y = "JDict doc_two"
       and c = 233]
  have h: "(0x80::nat) \<le> 233" by simp
  from k have "canonical_manifest_bytes (JDict doc_one) = canonical_manifest_bytes (JDict doc_two)"
    and "dumps (JDict doc_one) = dumps (JDict doc_two)"
    and "dumps (JStr [233]) = [0x22, 233, 0x22]"
    and "encode_utf8 (dumps (JStr [233])) = seqs [Inr [0x22], utf8_char 233, Inr [0x22]]"
    using same_mappings_docs h by blast+
  then show ?thesis
    using same_mappings_docs canonical_doc_two
    by (simp add: utf8_char_def del: canonical_manifest_bytes.simps dumps.simps)
qed

section \<open>Size and digest of a file entry\<close>

text \<open>
  Claim C5. For a file entry whose file exists, whose recorded \<open>bytes\<close> is an integer
  other than the actual size and whose recorded \<open>sha256\<close> matches \<open>SHA256_RE\<close> but is not
  the actual digest, both validators report exactly one bytes-mismatch error and exactly
  one sha256-mismatch error, in this order; the fixture validator then judges the entry's
  \<open>redaction_profile\<close> (a string or absent) on its own. An entry whose file does not exist
  yields the missing-file error alone.
\<close>

theorem independent_size_and_digest_errors:
  "(dget entry (lit ''path'') = JStr path_value \<longrightarrow> path_value \<noteq> [] \<longrightarrow>
    fs env (path_str (resolve_entry base_dir path_value)) = Some (File content) \<longrightarrow>
    is_int (dget entry (lit ''bytes'')) \<longrightarrow>
    int_value (dget entry (lit ''bytes'')) \<noteq> int (length content) \<longrightarrow>
    dget entry (lit ''sha256'') = JStr h \<longrightarrow> sha256_re h \<longrightarrow> h \<noteq> sha256_bytes content \<longrightarrow>
      validate_file_entry env entry base_dir label =
        Inr [label @ lit '' bytes mismatch for '' @ path_value @ lit '': expected ''
               @ py_str env (dget entry (lit ''bytes'')) @ lit '', got ''
               @ str_int (int (length content)),
             label @ lit '' sha256 mismatch for '' @ path_value @ lit '': expected '' @ h
               @ lit '', got '' @ sha256_bytes content]
      \<and> (in_str_set (dget entry (lit ''redaction_profile'')) REDACTION_PROFILES = Inr b \<longrightarrow>
           validate_artifact_entry env entry base_dir =
             Inr ([lit ''artifact bytes mismatch for '' @ path_value @ lit '': expected ''
                     @ py_str env (dget entry (lit ''bytes'')) @ lit '', got ''
                     @ str_int (int (length content)),
                   lit ''artifact sha256 mismatch for '' @ path_value @ lit '': expected '' @ h
                     @ lit '', got '' @ sha256_bytes content]
                  @ (if \<not> b then [lit ''artifact redaction_profile invalid for '' @ path_value]
                     else []))))
   \<and> (dget entry (lit ''path'') = JStr path_value \<longrightarrow> path_value \<noteq> [] \<longrightarrow>
       fs env (path_str (resolve_entry base_dir path_value)) = None \<longrightarrow>
         validate_file_entry env entry base_dir label =
           Inr [label @ lit '' file missing: '' @ path_str (resolve_entry base_dir path_value)]
         \<and> validate_artifact_entry env entry base_dir =
           Inr [lit ''artifact file missing: '' @ path_str (resolve_entry base_dir path_value)])"
  by (simp add: validate_file_entry_def validate_artifact_entry_def Let_def bytes_check_def
        sha256_check_def lit_append_lit)

lemma resolve_a_txt:
  "path_str (resolve_entry (parent (Path (lit ''m.json''))) (lit ''a.txt'')) = lit ''a.txt''"
  by (simp add: resolve_entry_def Path_def lit_Cons)

lemma resolve_b_txt:
  "path_str (resolve_entry (parent (Path (lit ''m.json''))) (lit ''b.txt'')) = lit ''b.txt''"
  by (simp add: resolve_entry_def Path_def lit_Cons)

theorem independent_size_and_digest_errors_witness:
  "dget truncated_entry (lit ''path'') = JStr (lit ''a.txt'') \<and> lit ''a.txt'' \<noteq> []
   \<and> fs one_file_env (path_str (resolve_entry (parent (Path (lit ''m.json''))) (lit ''a.txt'')))
       = Some (File [104, 105])
   \<and> is_int (dget truncated_entry (lit ''bytes''))
   \<and> int_value (dget truncated_entry (lit ''bytes'')) \<noteq> int (length [104 :: byte, 105])
   \<and> dget truncated_entry (lit ''sha256'') = JStr (tamper (sha256_bytes [104, 105]))
   \<and> sha256_re (tamper (sha256_bytes [104, 105]))
   \<and> tamper (sha256_bytes [104, 105]) \<noteq> sha256_bytes [104, 105]
   \<and> in_str_set (dget truncated_entry (lit ''redaction_profile'')) REDACTION_PROFILES = Inr True
   \<and> validate_artifact_entry one_file_env truncated_entry (parent (Path (lit ''m.json''))) =
       Inr [lit ''artifact bytes mismatch for a.txt: expected 3, got 2'',
            lit ''artifact sha256 mismatch for a.txt: expected ''
              @ tamper (sha256_bytes [104, 105]) @ lit '', got '' @ sha256_bytes [104, 105]]
   \<and> validate_file_entry one_file_env truncated_entry (parent (Path (lit ''m.json''))) (lit ''log'') =
       Inr [lit ''log bytes mismatch for a.txt: expected 3, got 2'',
            lit ''log sha256 mismatch for a.txt: expected ''
              @ tamper (sha256_bytes [104, 105]) @ lit '', got '' @ sha256_bytes [104, 105]]
   \<and> dget missing_entry (lit ''path'') = JStr (lit ''b.txt'') \<and> lit ''b.txt'' \<noteq> []
   \<and> fs one_file_env (path_str (resolve_entry (parent (Path (lit ''m.json''))) (lit ''b.txt'')))
       = None
   \<and> validate_artifact_entry one_file_env missing_entry (parent (Path (lit ''m.json''))) =
       Inr [lit ''artifact file missing: b.txt'']"
proof -
  have p: "dget truncated_entry (lit ''path'') = JStr (lit ''a.txt'')"
    by (simp add: truncated_entry_def dget_def)
  have n: "lit ''a.txt'' \<noteq> []" by (simp add: lit_Cons)
  have f: "fs one_file_env (path_str (resolve_entry (parent (Path (lit ''m.json''))) (lit ''a.txt'')))
       = Some (File [104, 105])"
    by (simp add: resolve_a_txt one_file_env_def)
  have i: "is_int (dget truncated_entry (lit ''bytes''))"
    by (simp add: truncated_entry_def dget_def)
  have v: "int_value (dget truncated_entry (lit ''bytes'')) \<noteq> int (length [104 :: byte, 105])"
    by (simp add: truncated_entry_def dget_def)
  have s: "dget truncated_entry (lit ''sha256'') = JStr (tamper (sha256_bytes [104, 105]))"
    by (simp add: truncated_entry_def dget_def)
  note t = tampered_digest [of "[104, 105]"]
  have r: "in_str_set (dget truncated_entry (lit ''redaction_profile'')) REDACTION_PROFILES
             = Inr True"
    by (simp add: truncated_entry_def dget_def REDACTION_PROFILES_def)
  have e: "py_str one_file_env (dget truncated_entry (lit ''bytes'')) = lit ''3''"
    by (simp add: truncated_entry_def dget_def str_int_def dec.simps lit_Cons)
  have g: "str_int 2 = lit ''2''"
    by (simp add: str_int_def dec.simps lit_Cons)
  have p': "dget missing_entry (lit ''path'') = JStr (lit ''b.txt'')"
    by (simp add: missing_entry_def dget_def)
  have n': "lit ''b.txt'' \<noteq> []" by (simp add: lit_Cons)
  have f': "fs one_file_env (path_str (resolve_entry (parent (Path (lit ''m.json''))) (lit ''b.txt'')))
       = None"
    by (simp add: resolve_b_txt one_file_env_def)
  note first = independent_size_and_digest_errors
    [where entry = truncated_entry and env = one_file_env and b = True,
     THEN conjunct1, rule_format, OF p n f i v s conjunct1 [OF t] conjunct2 [OF t]]
  note a = first [THEN conjunct2, rule_format, OF r]
  note l = first [where label = "lit ''log''", THEN conjunct1]
  note second = independent_size_and_digest_errors
    [where entry = missing_entry and env = one_file_env,
     THEN conjunct2, rule_format, OF p' n' f', THEN conjunct2]
  show ?thesis
    using p n f i v s t r p' n' f' a l second
    by (simp add: e g resolve_b_txt lit_append_lit lit_append [symmetric])
qed

section \<open>Where redaction_profile is required\<close>

lemma lit_eq_Nil_iff [simp]: "lit s = [] \<longleftrightarrow> s = []"
  by (simp add: lit_def)

lemma map_of_dict_pop: "k' \<noteq> k \<Longrightarrow> map_of (dict_pop d k) k' = map_of d k'"
  by (induction d) (auto simp: dict_pop_def)

lemma dget_dict_pop [simp]: "k' \<noteq> k \<Longrightarrow> dget (dict_pop d k) k' = dget d k'"
  by (simp add: dget_def map_of_dict_pop)

lemma validate_file_entry_pop:
  "validate_file_entry env (dict_pop e (lit ''redaction_profile'')) base_dir label
     = validate_file_entry env e base_dir label"
  by (simp add: validate_file_entry_def Let_def split: json.splits option.splits sum.splits)

lemma validate_jsonl_run_id_pop:
  "validate_jsonl_run_id env (dict_pop e (lit ''redaction_profile'')) base_dir run_id
     = validate_jsonl_run_id env e base_dir run_id"
  by (simp add: validate_jsonl_run_id_def split: json.splits option.splits sum.splits)

lemma required_kind_is_artifact_kind:
  "in_str_set k REDACTION_REQUIRED_KINDS = Inr True \<Longrightarrow> in_str_set k ARTIFACT_KINDS = Inr True"
  by (cases k) (auto simp: REDACTION_REQUIRED_KINDS_def ARTIFACT_KINDS_def)

text \<open>
  Claim C6, amended. In the end-to-end validator \<open>redaction_profile\<close> is optional except
  under the cross-field rule: for an artifact whose \<open>kind\<close> is not one of \<open>snapshot\<close>,
  \<open>plan\<close>, \<open>telemetry\<close>, \<open>bundle\<close>, \<open>report\<close>, and for every log entry, the outcome is the
  same with the key removed; for an artifact of one of these kinds the error
  \<open>artifact ... missing redaction_profile\<close> is appended exactly when the value is empty or
  absent. In the fixture validator every artifact entry whose file exists must carry a
  \<open>redaction_profile\<close> among \<open>minimal\<close>, \<open>safe\<close>, \<open>forensic\<close>, \<open>custom\<close>: otherwise
  \<open>artifact redaction_profile invalid\<close> is reported.
\<close>

theorem redaction_profile_requirement:
  "(in_str_set (dget e (lit ''kind'')) REDACTION_REQUIRED_KINDS = Inr False \<longrightarrow>
      e2e_artifact_entry env base_dir (JDict e)
        = e2e_artifact_entry env base_dir (JDict (dict_pop e (lit ''redaction_profile''))))
   \<and> e2e_log_entry env base_dir run_id (JDict e)
        = e2e_log_entry env base_dir run_id (JDict (dict_pop e (lit ''redaction_profile'')))
   \<and> (in_str_set (dget e (lit ''kind'')) REDACTION_REQUIRED_KINDS = Inr True \<longrightarrow>
       validate_file_entry env e base_dir (lit ''artifact'') = Inr fe \<longrightarrow>
         e2e_artifact_entry env base_dir (JDict e) =
           Inr (fe @ (if \<not> truthy (dget e (lit ''redaction_profile''))
                      then [lit ''artifact '' @ py_str env (dget e (lit ''path''))
                            @ lit '' missing redaction_profile'']
                      else [])))
   \<and> (dget e (lit ''path'') = JStr path_value \<longrightarrow> path_value \<noteq> [] \<longrightarrow>
       fs env (path_str (resolve_entry base_dir path_value)) = Some (File content) \<longrightarrow>
       in_str_set (dget e (lit ''redaction_profile'')) REDACTION_PROFILES = Inr False \<longrightarrow>
         (\<exists>errs. validate_artifact_entry env e base_dir =
                  Inr (errs @ [lit ''artifact redaction_profile invalid for '' @ path_value])))"
proof (intro conjI impI)
  assume "in_str_set (dget e (lit ''kind'')) REDACTION_REQUIRED_KINDS = Inr False"
  then show "e2e_artifact_entry env base_dir (JDict e)
        = e2e_artifact_entry env base_dir (JDict (dict_pop e (lit ''redaction_profile'')))"
    by (simp add: e2e_artifact_entry_def validate_file_entry_pop split: sum.splits)
next
  show "e2e_log_entry env base_dir run_id (JDict e)
        = e2e_log_entry env base_dir run_id (JDict (dict_pop e (lit ''redaction_profile'')))"
    by (simp add: e2e_log_entry_def validate_file_entry_pop validate_jsonl_run_id_pop
          split: sum.splits)
next
  assume "in_str_set (dget e (lit ''kind'')) REDACTION_REQUIRED_KINDS = Inr True"
    and "validate_file_entry env e base_dir (lit ''artifact'') = Inr fe"
  then show "e2e_artifact_entry env base_dir (JDict e) =
           Inr (fe @ (if \<not> truthy (dget e (lit ''redaction_profile''))
                      then [lit ''artifact '' @ py_str env (dget e (lit ''path''))
                            @ lit '' missing redaction_profile'']
                      else []))"
    by (simp add: e2e_artifact_entry_def required_kind_is_artifact_kind)
next
  assume "dget e (lit ''path'') = JStr path_value" and "path_value \<noteq> []"
    and "fs env (path_str (resolve_entry base_dir path_value)) = Some (File content)"
    and "in_str_set (dget e (lit ''redaction_profile'')) REDACTION_PROFILES = Inr False"
  then have "validate_artifact_entry env e base_dir =
      Inr ((bytes_check env (lit ''artifact'') path_value (dget e (lit ''bytes'')) (length content)
            @ sha256_check (lit ''artifact'') path_value (dget e (lit ''sha256''))
                (sha256_bytes content))
           @ [lit ''artifact redaction_profile invalid for '' @ path_value])"
    by (simp add: validate_artifact_entry_def Let_def)
  then show "\<exists>errs. validate_artifact_entry env e base_dir =
                  Inr (errs @ [lit ''artifact redaction_profile invalid for '' @ path_value])"
    by blast
qed

text \<open>
  As written, the claim fails for fixture manifests: an artifact entry whose file, size
  and digest are right, but which carries no \<open>redaction_profile\<close>, is rejected.
\<close>

theorem fixture_entry_without_profile_rejected:
  "validate_artifact_entry one_file_env unprofiled_entry (parent (Path (lit ''m.json'')))
     = Inr [lit ''artifact redaction_profile invalid for a.txt'']"
  by (simp add: validate_artifact_entry_def unprofiled_entry_def dget_def resolve_a_txt
        one_file_env_def bytes_check_def sha256_check_def REDACTION_PROFILES_def
        lit_append [symmetric])

theorem redaction_profile_requirement_witness:
  "in_str_set (dget manifest_kind_entry (lit ''kind'')) REDACTION_REQUIRED_KINDS = Inr False
   \<and> e2e_artifact_entry one_file_env (parent (Path (lit ''m.json''))) (JDict manifest_kind_entry)
       = e2e_artifact_entry one_file_env (parent (Path (lit ''m.json'')))
           (JDict (dict_pop manifest_kind_entry (lit ''redaction_profile'')))
   \<and> in_str_set (dget snapshot_entry (lit ''kind'')) REDACTION_REQUIRED_KINDS = Inr True
   \<and> validate_file_entry one_file_env snapshot_entry (parent (Path (lit ''m.json'')))
        (lit ''artifact'') = Inr [lit ''artifact file missing: b.txt'']
   \<and> e2e_artifact_entry one_file_env (parent (Path (lit ''m.json''))) (JDict snapshot_entry)
       = Inr [lit ''artifact file missing: b.txt'', lit ''artifact b.txt missing redaction_profile'']
   \<and> dget unprofiled_entry (lit ''path'') = JStr (lit ''a.txt'') \<and> lit ''a.txt'' \<noteq> []
   \<and> fs one_file_env (path_str (resolve_entry (parent (Path (lit ''m.json''))) (lit ''a.txt'')))
       = Some (File [104, 105])
   \<and> in_str_set (dget unprofiled_entry (lit ''redaction_profile'')) REDACTION_PROFILES = Inr False
   \<and> (\<exists>errs. validate_artifact_entry one_file_env unprofiled_entry
                 (parent (Path (lit ''m.json'')))
               = Inr (errs @ [lit ''artifact redaction_profile invalid for '' @ lit ''a.txt'']))"
proof -
  have k1: "in_str_set (dget manifest_kind_entry (lit ''kind'')) REDACTION_REQUIRED_KINDS
              = Inr False"
    by (simp add: manifest_kind_entry_def dget_def REDACTION_REQUIRED_KINDS_def)
  have k2: "in_str_set (dget snapshot_entry (lit ''kind'')) REDACTION_REQUIRED_KINDS = Inr True"
    by (simp add: snapshot_entry_def dget_def REDACTION_REQUIRED_KINDS_def)
  have f2: "validate_file_entry one_file_env snapshot_entry (parent (Path (lit ''m.json'')))
        (lit ''artifact'') = Inr [lit ''artifact file missing: b.txt'']"
    by (simp add: validate_file_entry_def snapshot_entry_def dget_def resolve_b_txt
          one_file_env_def lit_append [symmetric])
  have p: "dget unprofiled_entry (lit ''path'') = JStr (lit ''a.txt'')"
    by (simp add: unprofiled_entry_def dget_def)
  have n: "lit ''a.txt'' \<noteq> []" by (simp add: lit_Cons)
  have f: "fs one_file_env (path_str (resolve_entry (parent (Path (lit ''m.json''))) (lit ''a.txt'')))
       = Some (File [104, 105])"
    by (simp add: resolve_a_txt one_file_env_def)
  have r: "in_str_set (dget unprofiled_entry (lit ''redaction_profile'')) REDACTION_PROFILES
             = Inr False"
    by (simp add: unprofiled_entry_def dget_def)
  have t: "\<not> truthy (dget snapshot_entry (lit ''redaction_profile''))"
    by (simp add: snapshot_entry_def dget_def)
  have s: "py_str one_file_env (dget snapshot_entry (lit ''path'')) = lit ''b.txt''"
    by (simp add: snapshot_entry_def dget_def)
  note one = redaction_profile_requirement
    [where e = manifest_kind_entry and env = one_file_env
       and base_dir = "parent (Path (lit ''m.json''))", THEN conjunct1, rule_format, OF k1]
  note three = redaction_profile_requirement
    [where e = snapshot_entry and env = one_file_env
       and base_dir = "parent (Path (lit ''m.json''))",
     THEN conjunct2, THEN conjunct2, THEN conjunct1, rule_format, OF k2 f2]
  note four = redaction_profile_requirement
    [where e = unprofiled_entry and env = one_file_env
       and base_dir = "parent (Path (lit ''m.json''))",
     THEN conjunct2, THEN conjunct2, THEN conjunct2, rule_format, OF p n f r]
  show ?thesis
    using k1 k2 f2 p n f r one three four
    by (simp add: t s lit_append_lit lit_append [symmetric])
qed

section \<open>Gating of the self-hash comparison\<close>

lemma malformed_not_digest: "\<not> sha256_re s \<Longrightarrow> s \<noteq> sha256_bytes data"
  by auto

text \<open>
  Claim C4 says that a malformed \<open>manifest_sha256\<close> is reported alone, the comparison with
  the recomputed digest being made only for a well-formed value. The fixture validator does
  so. The end-to-end validator does not: for a string that does not match \<open>SHA256_RE\<close> it
  reports \<open>manifest_sha256 not sha256 hex\<close> and compares all the same, so that
  \<open>manifest_sha256 mismatch\<close> always follows. When the value is absent or not a string,
  both validators report the one defect.
\<close>

theorem malformed_digest_compared_anyway:
  "(dget m (lit ''manifest_sha256'') = JStr s \<longrightarrow> \<not> sha256_re s \<longrightarrow>
    canonical_manifest_bytes (JDict m) = Inr data \<longrightarrow>
      e2e_self_hash m =
        Inr [lit ''manifest_sha256 not sha256 hex'',
             lit ''manifest_sha256 mismatch: expected '' @ s @ lit '', got '' @ sha256_bytes data]
      \<and> fixture_self_hash m = Inr [lit ''manifest_sha256 must be sha256 hex''])
   \<and> (\<not> is_str (dget m (lit ''manifest_sha256'')) \<longrightarrow>
        e2e_self_hash m = Inr [lit ''manifest_sha256 must be string'']
        \<and> fixture_self_hash m = Inr [lit ''manifest_sha256 must be sha256 hex''])"
proof (intro conjI impI)
  assume g: "dget m (lit ''manifest_sha256'') = JStr s" and w: "\<not> sha256_re s"
    and c: "canonical_manifest_bytes (JDict m) = Inr data"
  from w have "s \<noteq> sha256_bytes data" by (rule malformed_not_digest)
  with g w c show "e2e_self_hash m =
        Inr [lit ''manifest_sha256 not sha256 hex'',
             lit ''manifest_sha256 mismatch: expected '' @ s @ lit '', got '' @ sha256_bytes data]"
    by (simp add: e2e_self_hash_def)
  from g w show "fixture_self_hash m = Inr [lit ''manifest_sha256 must be sha256 hex'']"
    by (simp add: fixture_self_hash_def)
next
  assume "\<not> is_str (dget m (lit ''manifest_sha256''))"
  then show "e2e_self_hash m = Inr [lit ''manifest_sha256 must be string'']"
    by (cases "dget m (lit ''manifest_sha256'')") (simp_all add: e2e_self_hash_def)
next
  assume "\<not> is_str (dget m (lit ''manifest_sha256''))"
  then show "fixture_self_hash m = Inr [lit ''manifest_sha256 must be sha256 hex'']"
    by (cases "dget m (lit ''manifest_sha256'')") (simp_all add: fixture_self_hash_def)
qed

lemma xyz_malformed: "\<not> sha256_re (lit ''xyz'')"
  by (simp add: sha256_re_def)

lemma validate_malformed_e2e:
  "validate_manifest_e2e bare_env (JDict malformed_manifest) (Path (lit ''m.json''))
     (Path (lit ''s.json'')) =
   Inr (e2e_structure_errors
        @ [lit ''manifest_sha256 not sha256 hex'',
           lit ''manifest_sha256 mismatch: expected xyz, got '' @ sha256_bytes [123, 125],
           lit ''commands must be non-empty array'', lit ''logs must be array'',
           lit ''artifacts must be array''])"
  using malformed_not_digest [OF xyz_malformed, of "[123, 125]"]
  by (simp add: validate_manifest_e2e_def validate_schema_with_jsonschema_def bare_env_def
        malformed_manifest_def e2e_structure_errors_def e2e_fields_def require_field_def
        dhas_def dget_def check_schema_version_def must_be_string_def e2e_self_hash_def
        e2e_commands_def e2e_logs_def e2e_artifacts_def canonical_only_digest xyz_malformed
        lit_append_lit lit_append [symmetric] del: canonical_manifest_bytes.simps)

lemma validate_malformed_fixture:
  "validate_manifest bare_env (JDict malformed_manifest) (Path (lit ''m.json''))
     (Path (lit ''s.json'')) =
   Inr (structure_errors @ [lit ''manifest_sha256 must be sha256 hex''])"
  by (simp add: validate_manifest_def validate_schema_with_jsonschema_def bare_env_def
        malformed_manifest_def structure_errors_def
        fixture_fields_def require_field_def dhas_def dget_def check_schema_version_def
        must_be_string_def fixture_artifacts_def fixture_self_hash_def xyz_malformed
        lit_append [symmetric] del: canonical_manifest_bytes.simps)

theorem malformed_digest_compared_anyway_witness:
  "dget malformed_manifest (lit ''manifest_sha256'') = JStr (lit ''xyz'')
   \<and> \<not> sha256_re (lit ''xyz'')
   \<and> canonical_manifest_bytes (JDict malformed_manifest) = Inr [123, 125]
   \<and> e2e_self_hash malformed_manifest =
       Inr [lit ''manifest_sha256 not sha256 hex'',
            lit ''manifest_sha256 mismatch: expected xyz, got '' @ sha256_bytes [123, 125]]
   \<and> fixture_self_hash malformed_manifest = Inr [lit ''manifest_sha256 must be sha256 hex'']
   \<and> validate_manifest_e2e bare_env (JDict malformed_manifest) (Path (lit ''m.json''))
        (Path (lit ''s.json'')) =
       Inr (e2e_structure_errors
            @ [lit ''manifest_sha256 not sha256 hex'',
               lit ''manifest_sha256 mismatch: expected xyz, got '' @ sha256_bytes [123, 125],
               lit ''commands must be non-empty array'', lit ''logs must be array'',
               lit ''artifacts must be array''])
   \<and> validate_manifest bare_env (JDict malformed_manifest) (Path (lit ''m.json''))
        (Path (lit ''s.json'')) =
       Inr (structure_errors @ [lit ''manifest_sha256 must be sha256 hex''])
   \<and> \<not> is_str (dget [] (lit ''manifest_sha256''))
   \<and> e2e_self_hash [] = Inr [lit ''manifest_sha256 must be string'']
   \<and> fixture_self_hash [] = Inr [lit ''manifest_sha256 must be sha256 hex'']"
proof -
  have g: "dget malformed_manifest (lit ''manifest_sha256'') = JStr (lit ''xyz'')"
    by (simp add: malformed_manifest_def dget_def)
  have c: "canonical_manifest_bytes (JDict malformed_manifest) = Inr [123, 125]"
    unfolding malformed_manifest_def by (rule canonical_only_digest)
  have a: "\<not> is_str (dget [] (lit ''manifest_sha256''))"
    by (simp add: dget_def)
  note one = malformed_digest_compared_anyway
    [where m = malformed_manifest, THEN conjunct1, rule_format, OF g xyz_malformed c]
  note two = malformed_digest_compared_anyway
    [where m = "[]", THEN conjunct2, rule_format, OF a]
  show ?thesis
    using g xyz_malformed c a one two validate_malformed_e2e validate_malformed_fixture
    by (simp add: lit_append_lit del: canonical_manifest_bytes.simps)
qed

section \<open>A manifest that is not an object\<close>

lemma seqs_raises: "Inl e \<in> set xs \<Longrightarrow> \<exists>e'. seqs xs = Inl e'"
proof (induction xs)
  case (Cons x xs)
  then show ?case by (cases x) (auto split: sum.splits)
qed simp

lemma seqs_last_raises: "seqs [Inr a, Inr b, Inl e] = Inl e"
  by simp

lemma require_fields_list:
  "seqs (map (require_field (JList xs)) fds)
     = Inr (concat (map (\<lambda>field. if JStr field \<notin> set xs
                                  then [lit ''missing required field: '' @ field] else []) fds))"
proof -
  have "map (require_field (JList xs)) fds
          = map Inr (map (\<lambda>field. if JStr field \<notin> set xs
                                  then [lit ''missing required field: '' @ field] else []) fds)"
    by (simp add: require_field_def)
  then show ?thesis by (simp only: seqs_map_Inr)
qed

lemma schema_step_cases:
  "(\<exists>es. validate_schema_with_jsonschema env v sp = Inr es)
   \<or> (\<exists>r. jsonschema env (path_str sp) v = Exits r
           \<and> validate_schema_with_jsonschema env v sp = Inl (SystemExit r))"
  by (cases "jsonschema env (path_str sp) v") (simp_all add: validate_schema_with_jsonschema_def)

lemma seqs_Cons_raises: "\<exists>e. seqs xs = Inl e \<Longrightarrow> \<exists>e. seqs (x # xs) = Inl e"
  by (cases x) auto

lemma require_scalar_raises:
  "\<not> is_dict v \<Longrightarrow> \<not> is_list v \<Longrightarrow> \<not> is_str v \<Longrightarrow> require_field v f = Inl TypeError"
  by (cases v) (simp_all add: require_field_def)

lemma not_dict_case:
  "\<not> is_dict v \<Longrightarrow> (case v of JDict m \<Rightarrow> f m | _ \<Rightarrow> Inl AttributeError) = Inl AttributeError"
  by (cases v) simp_all

text \<open>
  Claim C9. \<open>load_json\<close> returns whatever JSON value the file holds. When that value is not
  an object, \<open>validate_manifest\<close> of each of the three validators raises instead of
  returning an error list, and the exception leaves \<open>main\<close>: for a JSON array it is
  \<open>AttributeError\<close> (the array has no \<open>get\<close>); for a number it is \<open>TypeError\<close>, raised
  earlier by \<open>field not in manifest\<close>. (If the optional schema validation runs and its
  \<open>load_json\<close> of the schema file exits, that \<open>SystemExit\<close> comes first.)
\<close>

theorem non_object_manifest_raises:
  "((\<forall>r. jsonschema env (path_str sp) (JList xs) \<noteq> Exits r) \<longrightarrow>
      validate_manifest env (JList xs) mp sp = Inl AttributeError
      \<and> validate_manifest_e2e env (JList xs) mp sp = Inl AttributeError
      \<and> validate_manifest_capabilities env (JList xs) sp = Inl AttributeError)
   \<and> ((\<forall>r. jsonschema env (path_str sp) (JInt n) \<noteq> Exits r) \<longrightarrow>
      validate_manifest env (JInt n) mp sp = Inl TypeError
      \<and> validate_manifest_e2e env (JInt n) mp sp = Inl TypeError
      \<and> validate_manifest_capabilities env (JInt n) sp = Inl TypeError)
   \<and> (\<not> is_dict v \<longrightarrow>
      (\<exists>e. validate_manifest env v mp sp = Inl e)
      \<and> (\<exists>e. validate_manifest_e2e env v mp sp = Inl e)
      \<and> (\<exists>e. validate_manifest_capabilities env v sp = Inl e))
   \<and> (load_json env mp = Inr v \<longrightarrow> \<not> is_dict v \<longrightarrow>
      (\<exists>e. main_fixture env mp sp = Inl e) \<and> (\<exists>e. main_e2e env mp sp = Inl e)
      \<and> (\<exists>e. main_capabilities env mp sp = Inl e))"
proof -
  have third: "(\<exists>e. validate_manifest env v mp sp = Inl e)
      \<and> (\<exists>e. validate_manifest_e2e env v mp sp = Inl e)
      \<and> (\<exists>e. validate_manifest_capabilities env v sp = Inl e)" if "\<not> is_dict v" for v
    unfolding validate_manifest_def validate_manifest_e2e_def validate_manifest_capabilities_def
    by (intro conjI seqs_raises [where e = AttributeError]) (simp_all add: not_dict_case that)
  have first: "validate_manifest env (JList xs) mp sp = Inl AttributeError
      \<and> validate_manifest_e2e env (JList xs) mp sp = Inl AttributeError
      \<and> validate_manifest_capabilities env (JList xs) sp = Inl AttributeError"
    if "\<forall>r. jsonschema env (path_str sp) (JList xs) \<noteq> Exits r"
  proof -
    from that schema_step_cases [of env "JList xs" sp]
    obtain es where "validate_schema_with_jsonschema env (JList xs) sp = Inr es"
      by auto
    then show ?thesis
      by (simp add: validate_manifest_def validate_manifest_e2e_def
            validate_manifest_capabilities_def require_fields_list)
  qed
  have second: "validate_manifest env (JInt n) mp sp = Inl TypeError
      \<and> validate_manifest_e2e env (JInt n) mp sp = Inl TypeError
      \<and> validate_manifest_capabilities env (JInt n) sp = Inl TypeError"
    if "\<forall>r. jsonschema env (path_str sp) (JInt n) \<noteq> Exits r"
  proof -
    from that schema_step_cases [of env "JInt n" sp]
    obtain es where "validate_schema_with_jsonschema env (JInt n) sp = Inr es"
      by auto
    then show ?thesis
      by (simp add: validate_manifest_def validate_manifest_e2e_def
            validate_manifest_capabilities_def require_field_def fixture_fields_def
            e2e_fields_def capabilities_fields_def)
  qed
  have fourth: "(\<exists>e. main_fixture env mp sp = Inl e) \<and> (\<exists>e. main_e2e env mp sp = Inl e)
      \<and> (\<exists>e. main_capabilities env mp sp = Inl e)"
    if "load_json env mp = Inr v" "\<not> is_dict v"
    using third [OF that(2)] that(1)
    by (auto simp: main_fixture_def main_e2e_def main_capabilities_def)
  from first second third fourth show ?thesis by blast
qed

lemma load_array_file: "load_json array_file_env (Path (lit ''m.json'')) = Inr (JList [])"
  by (simp add: load_json_def array_file_env_def bare_env_def Path_def lit_Cons)

theorem non_object_manifest_raises_witness:
  "(\<forall>r. jsonschema array_file_env (path_str (Path (lit ''s.json''))) (JList []) \<noteq> Exits r)
   \<and> (\<forall>r. jsonschema array_file_env (path_str (Path (lit ''s.json''))) (JInt 5) \<noteq> Exits r)
   \<and> load_json array_file_env (Path (lit ''m.json'')) = Inr (JList []) \<and> \<not> is_dict (JList [])
   \<and> validate_manifest array_file_env (JList []) (Path (lit ''m.json'')) (Path (lit ''s.json''))
       = Inl AttributeError
   \<and> validate_manifest_e2e array_file_env (JList []) (Path (lit ''m.json''))
        (Path (lit ''s.json'')) = Inl AttributeError
   \<and> validate_manifest_capabilities array_file_env (JList []) (Path (lit ''s.json''))
       = Inl AttributeError
   \<and> validate_manifest array_file_env (JInt 5) (Path (lit ''m.json'')) (Path (lit ''s.json''))
       = Inl TypeError
   \<and> main_fixture array_file_env (Path (lit ''m.json'')) (Path (lit ''s.json''))
       = Inl AttributeError
   \<and> main_e2e array_file_env (Path (lit ''m.json'')) (Path (lit ''s.json''))
       = Inl AttributeError
   \<and> main_capabilities array_file_env (Path (lit ''m.json'')) (Path (lit ''s.json''))
       = Inl AttributeError"
proof -
  have j: "jsonschema array_file_env (path_str (Path (lit ''s.json''))) v \<noteq> Exits r" for v r
    by (simp add: array_file_env_def bare_env_def)
  note one = non_object_manifest_raises
    [where env = array_file_env and xs = "[]" and sp = "Path (lit ''s.json'')"
       and mp = "Path (lit ''m.json'')", THEN conjunct1, rule_format, OF j]
  note two = non_object_manifest_raises
    [where env = array_file_env and n = 5 and sp = "Path (lit ''s.json'')"
       and mp = "Path (lit ''m.json'')", THEN conjunct2, THEN conjunct1, rule_format, OF j]
  show ?thesis
    using j one two load_array_file
    by (simp add: main_fixture_def main_e2e_def main_capabilities_def)
qed

section \<open>JSONL logs and the run identifier\<close>

lemma strip_line_abc: \<open>strip (lit ''{"run_id":"abc"}'') = lit ''{"run_id":"abc"}''\<close>
  by (simp add: strip_def py_isspace_def lit_Cons)

lemma strip_line_xyz: \<open>strip (lit ''{"run_id":"xyz"}'') = lit ''{"run_id":"xyz"}''\<close>
  by (simp add: strip_def py_isspace_def lit_Cons)

lemma jsonl_two_lines:
  assumes abc: \<open>json_loads env (lit ''{"run_id":"abc"}'')
                 = Some (JDict [(lit ''run_id'', JStr (lit ''abc''))])\<close>
    and xyz: \<open>json_loads env (lit ''{"run_id":"xyz"}'')
                 = Some (JDict [(lit ''run_id'', JStr (lit ''xyz''))])\<close>
    and p: "dget e (lit ''path'') = JStr path_value" "path_value \<noteq> []"
    and f: "fs env (path_str (resolve_entry base_dir path_value)) = Some n"
    and r: "read_text n = Inr t"
    and l: \<open>text_lines [] t = [lit ''{"run_id":"abc"}'', lit ''{"run_id":"xyz"}'']\<close>
  shows "validate_jsonl_run_id env e base_dir (lit ''abc'')
           = Inr [lit ''jsonl run_id mismatch in '' @ path_value @ lit '' line 2'']"
proof -
  have two: "dec (Suc (Suc 0)) = lit ''2''"
    by (simp add: dec.simps lit_Cons)
  have e: "enumerate 1 [a, b] = [(1, a), (2, b)]" for a b :: pystr
    by (simp add: enumerate_eq_zip upt_rec)
  show ?thesis
    using p f r l abc xyz
    by (simp add: validate_jsonl_run_id_def e jsonl_line_def strip_line_abc strip_line_xyz
          dget_def two lit_append_lit lit_append [symmetric] Let_def)
qed

text \<open>
  Claim C8. Let \<open>json.loads\<close> read the lines \<open>{"run_id":"abc"}\<close> and \<open>{"run_id":"xyz"}\<close> as
  they are written. For an end-to-end manifest whose \<open>run_id\<close> is \<open>abc\<close> and whose one log
  entry, of kind \<open>jsonl\<close>, names an existing file made of exactly these two lines, the JSONL
  check reports one error, \<open>jsonl run_id mismatch\<close> at line 2, and no parse error; the log
  step of the validator reports it after the size and digest findings for the file.
\<close>

theorem jsonl_run_id_consistency:
  \<open>json_loads env (lit ''{"run_id":"abc"}'')
      = Some (JDict [(lit ''run_id'', JStr (lit ''abc''))]) \<longrightarrow>
   json_loads env (lit ''{"run_id":"xyz"}'')
      = Some (JDict [(lit ''run_id'', JStr (lit ''xyz''))]) \<longrightarrow>
   dget m (lit ''run_id'') = JStr (lit ''abc'') \<longrightarrow>
   dget m (lit ''logs'') = JList [JDict e] \<longrightarrow>
   dget e (lit ''kind'') = JStr (lit ''jsonl'') \<longrightarrow>
   dget e (lit ''path'') = JStr path_value \<longrightarrow> path_value \<noteq> [] \<longrightarrow>
   fs env (path_str (resolve_entry (parent mp) path_value)) = Some (File content) \<longrightarrow>
   read_text (File content) = Inr t \<longrightarrow>
   text_lines [] t = [lit ''{"run_id":"abc"}'', lit ''{"run_id":"xyz"}''] \<longrightarrow>
     validate_jsonl_run_id env e (parent mp) (lit ''abc'')
       = Inr [lit ''jsonl run_id mismatch in '' @ path_value @ lit '' line 2'']
     \<and> e2e_logs env m mp =
         Inr (bytes_check env (lit ''log'') path_value (dget e (lit ''bytes'')) (length content)
              @ sha256_check (lit ''log'') path_value (dget e (lit ''sha256''))
                  (sha256_bytes content)
              @ [lit ''jsonl run_id mismatch in '' @ path_value @ lit '' line 2''])\<close>
proof (intro impI)
  assume abc: \<open>json_loads env (lit ''{"run_id":"abc"}'')
                 = Some (JDict [(lit ''run_id'', JStr (lit ''abc''))])\<close>
    and xyz: \<open>json_loads env (lit ''{"run_id":"xyz"}'')
                 = Some (JDict [(lit ''run_id'', JStr (lit ''xyz''))])\<close>
    and rid: "dget m (lit ''run_id'') = JStr (lit ''abc'')"
    and logs: "dget m (lit ''logs'') = JList [JDict e]"
    and kind: "dget e (lit ''kind'') = JStr (lit ''jsonl'')"
    and p: "dget e (lit ''path'') = JStr path_value" "path_value \<noteq> []"
    and f: "fs env (path_str (resolve_entry (parent mp) path_value)) = Some (File content)"
    and r: "read_text (File content) = Inr t"
    and l: \<open>text_lines [] t = [lit ''{"run_id":"abc"}'', lit ''{"run_id":"xyz"}'']\<close>
  have j: "validate_jsonl_run_id env e (parent mp) (lit ''abc'')
       = Inr [lit ''jsonl run_id mismatch in '' @ path_value @ lit '' line 2'']"
    using abc xyz p f r l by (rule jsonl_two_lines)
  have v: "validate_file_entry env e (parent mp) (lit ''log'') =
      Inr (bytes_check env (lit ''log'') path_value (dget e (lit ''bytes'')) (length content)
           @ sha256_check (lit ''log'') path_value (dget e (lit ''sha256''))
               (sha256_bytes content))"
    using p f by (simp add: validate_file_entry_def Let_def)
  have "e2e_logs env m mp =
         Inr (bytes_check env (lit ''log'') path_value (dget e (lit ''bytes'')) (length content)
              @ sha256_check (lit ''log'') path_value (dget e (lit ''sha256''))
                  (sha256_bytes content)
              @ [lit ''jsonl run_id mismatch in '' @ path_value @ lit '' line 2''])"
    using rid logs kind j v
    by (simp add: e2e_logs_def e2e_run_id_def e2e_log_entry_def LOG_KINDS_def)
  with j show "validate_jsonl_run_id env e (parent mp) (lit ''abc'')
       = Inr [lit ''jsonl run_id mismatch in '' @ path_value @ lit '' line 2'']
     \<and> e2e_logs env m mp =
         Inr (bytes_check env (lit ''log'') path_value (dget e (lit ''bytes'')) (length content)
              @ sha256_check (lit ''log'') path_value (dget e (lit ''sha256''))
                  (sha256_bytes content)
              @ [lit ''jsonl run_id mismatch in '' @ path_value @ lit '' line 2''])"
    by simp
qed

lemma resolve_log_jsonl:
  "path_str (resolve_entry (parent (Path (lit ''m.json''))) (lit ''log.jsonl'')) = lit ''log.jsonl''"
  by (simp add: resolve_entry_def Path_def lit_Cons)

lemma read_log_jsonl:
  \<open>read_text (File [123, 34, 114, 117, 110, 95, 105, 100, 34, 58, 34, 97, 98, 99,
                                     34, 125, 10, 123, 34, 114, 117, 110, 95, 105, 100, 34, 58, 34,
                                     120, 121, 122, 34, 125, 10])
     = Inr (lit ''{"run_id":"abc"}'' @ [10] @ lit ''{"run_id":"xyz"}'' @ [10])\<close>
  by (simp add: lit_Cons)

lemma lines_log_jsonl:
  \<open>text_lines [] (lit ''{"run_id":"abc"}'' @ [10] @ lit ''{"run_id":"xyz"}'' @ [10])
     = [lit ''{"run_id":"abc"}'', lit ''{"run_id":"xyz"}'']\<close>
  by (simp add: lit_Cons)

theorem jsonl_run_id_consistency_witness:
  \<open>json_loads jsonl_env (lit ''{"run_id":"abc"}'')
      = Some (JDict [(lit ''run_id'', JStr (lit ''abc''))])
   \<and> json_loads jsonl_env (lit ''{"run_id":"xyz"}'')
      = Some (JDict [(lit ''run_id'', JStr (lit ''xyz''))])
   \<and> dget jsonl_manifest (lit ''run_id'') = JStr (lit ''abc'')
   \<and> dget jsonl_manifest (lit ''logs'') = JList [JDict jsonl_entry]
   \<and> dget jsonl_entry (lit ''kind'') = JStr (lit ''jsonl'')
   \<and> dget jsonl_entry (lit ''path'') = JStr (lit ''log.jsonl'') \<and> lit ''log.jsonl'' \<noteq> []
   \<and> (\<exists>content t.
         fs jsonl_env (path_str (resolve_entry (parent (Path (lit ''m.json''))) (lit ''log.jsonl'')))
           = Some (File content)
         \<and> read_text (File content) = Inr t
         \<and> text_lines [] t = [lit ''{"run_id":"abc"}'', lit ''{"run_id":"xyz"}''])
   \<and> validate_jsonl_run_id jsonl_env jsonl_entry (parent (Path (lit ''m.json''))) (lit ''abc'')
       = Inr [lit ''jsonl run_id mismatch in log.jsonl line 2'']
   \<and> e2e_logs jsonl_env jsonl_manifest (Path (lit ''m.json'')) =
       Inr [lit ''log bytes missing for log.jsonl'', lit ''log sha256 invalid for log.jsonl'',
            lit ''jsonl run_id mismatch in log.jsonl line 2'']\<close>
proof -
  have abc: \<open>json_loads jsonl_env (lit ''{"run_id":"abc"}'')
      = Some (JDict [(lit ''run_id'', JStr (lit ''abc''))])\<close>
    by (simp add: jsonl_env_def)
  have xyz: \<open>json_loads jsonl_env (lit ''{"run_id":"xyz"}'')
      = Some (JDict [(lit ''run_id'', JStr (lit ''xyz''))])\<close>
    by (simp add: jsonl_env_def)
  have rid: "dget jsonl_manifest (lit ''run_id'') = JStr (lit ''abc'')"
    by (simp add: jsonl_manifest_def dget_def)
  have logs: "dget jsonl_manifest (lit ''logs'') = JList [JDict jsonl_entry]"
    by (simp add: jsonl_manifest_def dget_def)
  have kind: "dget jsonl_entry (lit ''kind'') = JStr (lit ''jsonl'')"
    by (simp add: jsonl_entry_def dget_def)
  have p: "dget jsonl_entry (lit ''path'') = JStr (lit ''log.jsonl'')"
    by (simp add: jsonl_entry_def dget_def)
  have n: "lit ''log.jsonl'' \<noteq> []" by simp
  have f: "fs jsonl_env (path_str (resolve_entry (parent (Path (lit ''m.json''))) (lit ''log.jsonl'')))
           = Some (File [123, 34, 114, 117, 110, 95, 105, 100, 34, 58, 34, 97, 98, 99,
                                     34, 125, 10, 123, 34, 114, 117, 110, 95, 105, 100, 34, 58, 34,
                                     120, 121, 122, 34, 125, 10])"
    by (simp add: resolve_log_jsonl jsonl_env_def)
  have b: "dget jsonl_entry (lit ''bytes'') = JNull" "dget jsonl_entry (lit ''sha256'') = JNull"
    by (simp_all add: jsonl_entry_def dget_def)
  note c = jsonl_run_id_consistency
    [where env = jsonl_env and m = jsonl_manifest and e = jsonl_entry
       and mp = "Path (lit ''m.json'')", rule_format,
     OF abc xyz rid logs kind p n f read_log_jsonl lines_log_jsonl]
  show ?thesis
    using abc xyz rid logs kind p n f read_log_jsonl lines_log_jsonl c
    by (auto simp: b bytes_check_def sha256_check_def lit_append_lit lit_append [symmetric]
          simp del: read_text.simps)
qed

section \<open>JSONL check without a run identifier\<close>

lemma seqs_snoc_empty: "seqs (xs @ [Inr []]) = seqs xs"
  by (induction xs rule: seqs.induct) (auto split: sum.splits)

lemma e2e_log_entry_no_run_id:
  "e2e_log_entry env base_dir [] entry = log_entry_files_only env base_dir entry"
proof (cases entry)
  case (JDict e)
  have "seqs ([a, b] @ [Inr []]) = seqs [a, b]" for a b :: "exn + pystr list"
    by (rule seqs_snoc_empty)
  then show ?thesis
    by (simp add: JDict e2e_log_entry_def log_entry_files_only_def)
qed (simp_all add: e2e_log_entry_def log_entry_files_only_def)

lemma e2e_log_entry_no_run_id_fun:
  "e2e_log_entry env base_dir [] = log_entry_files_only env base_dir"
  by (rule ext) (rule e2e_log_entry_no_run_id)

lemma e2e_run_id_not_str: "\<not> is_str (dget m (lit ''run_id'')) \<Longrightarrow> e2e_run_id m = []"
  by (cases "dget m (lit ''run_id'')") (simp_all add: e2e_run_id_def)

lemma validate_file_entry_tag:
  "validate_file_entry env e base label = Inr es \<Longrightarrow> x \<in> set es \<Longrightarrow> \<exists>r. x = label @ r"
  by (auto simp: validate_file_entry_def Let_def
      split: json.splits if_splits option.splits sum.splits
      dest!: bytes_check_tag sha256_check_tag)

lemma log_entry_files_only_tag:
  assumes "log_entry_files_only env base entry = Inr es" and "x \<in> set es"
  shows "take 3 x = lit ''log''"
proof (cases entry)
  case (JDict e)
  with assms obtain a b where
    a: "(case in_str_set (dget e (lit ''kind'')) LOG_KINDS of
                Inl x \<Rightarrow> Inl x
              | Inr b \<Rightarrow>
                  Inr (if \<not> b then [lit ''log kind invalid: '' @ py_str env (dget e (lit ''kind''))]
                       else [])) = Inr a"
    and b: "validate_file_entry env e base (lit ''log'') = Inr b" and es: "es = a @ b"
    by (auto simp: log_entry_files_only_def seqs_Cons_Inr seqs_Nil_Inr simp del: seqs.simps)
  from assms(2) es consider "x \<in> set a" | "x \<in> set b" by auto
  then show ?thesis
  proof cases
    case 1
    with a show ?thesis by (auto simp: lit_Cons split: sum.splits if_splits)
  next
    case 2
    from validate_file_entry_tag [OF b 2] show ?thesis by (auto simp: lit_Cons)
  qed
qed (use assms in \<open>auto simp: log_entry_files_only_def lit_Cons\<close>)

lemma e2e_logs_no_run_id_tag:
  assumes "\<not> is_str (dget m (lit ''run_id''))" and "e2e_logs env m mp = Inr es" and "x \<in> set es"
  shows "take 3 x = lit ''log''"
proof (cases "dget m (lit ''logs'')")
  case (JList logs)
  with assms have "seqs (map (log_entry_files_only env (parent mp)) logs) = Inr es"
    by (simp add: e2e_logs_def e2e_run_id_not_str e2e_log_entry_no_run_id_fun)
  from seqs_Inr_mem [OF this assms(3)] show ?thesis
    by (auto dest: log_entry_files_only_tag)
qed (use assms in \<open>auto simp: e2e_logs_def lit_Cons\<close>)

lemma e2e_artifact_entry_tag:
  assumes "e2e_artifact_entry env base entry = Inr es" and "x \<in> set es"
  shows "take 3 x = lit ''art''"
proof (cases entry)
  case (JDict e)
  with assms obtain a b c where
    a: "(case in_str_set (dget e (lit ''kind'')) ARTIFACT_KINDS of
                Inl x \<Rightarrow> Inl x
              | Inr b \<Rightarrow>
                  Inr (if \<not> b
                       then [lit ''artifact kind invalid: '' @ py_str env (dget e (lit ''kind''))]
                       else [])) = Inr a"
    and b: "validate_file_entry env e base (lit ''artifact'') = Inr b"
    and c: "(case in_str_set (dget e (lit ''kind'')) REDACTION_REQUIRED_KINDS of
                Inl x \<Rightarrow> Inl x
              | Inr b \<Rightarrow>
                  Inr (if b \<and> \<not> truthy (dget e (lit ''redaction_profile''))
                       then [lit ''artifact '' @ py_str env (dget e (lit ''path''))
                             @ lit '' missing redaction_profile'']
                       else [])) = Inr c"
    and es: "es = a @ b @ c"
    by (auto simp: e2e_artifact_entry_def seqs_Cons_Inr seqs_Nil_Inr simp del: seqs.simps)
  from assms(2) es consider "x \<in> set a" | "x \<in> set b" | "x \<in> set c" by auto
  then show ?thesis
  proof cases
    case 1
    with a show ?thesis by (auto simp: lit_Cons split: sum.splits if_splits)
  next
    case 2
    from validate_file_entry_tag [OF b 2] show ?thesis by (auto simp: lit_Cons)
  next
    case 3
    with c show ?thesis by (auto simp: lit_Cons split: sum.splits if_splits)
  qed
qed (use assms in \<open>auto simp: e2e_artifact_entry_def lit_Cons\<close>)

lemma e2e_artifacts_tag:
  assumes "e2e_artifacts env m mp = Inr es" and "x \<in> set es"
  shows "take 3 x = lit ''art''"
proof (cases "dget m (lit ''artifacts'')")
  case (JList artifacts)
  with assms have "seqs (map (e2e_artifact_entry env (parent mp)) artifacts) = Inr es"
    by (simp add: e2e_artifacts_def)
  from seqs_Inr_mem [OF this assms(2)] show ?thesis
    by (auto dest: e2e_artifact_entry_tag)
qed (use assms in \<open>auto simp: e2e_artifacts_def lit_Cons\<close>)

lemma e2e_command_tag: "x \<in> set (e2e_command p) \<Longrightarrow> take 3 x = lit ''com''"
  by (cases "snd p") (auto simp: e2e_command_def lit_Cons split: if_splits)

lemma e2e_commands_tag: "x \<in> set (e2e_commands m) \<Longrightarrow> take 3 x = lit ''com''"
  by (cases "dget m (lit ''commands'')")
     (auto simp: e2e_commands_def lit_Cons split: if_splits dest: e2e_command_tag)

lemma e2e_self_hash_tag: "e2e_self_hash m = Inr es \<Longrightarrow> x \<in> set es \<Longrightarrow> take 3 x = lit ''man''"
  by (cases "dget m (lit ''manifest_sha256'')")
     (auto simp: e2e_self_hash_def lit_Cons split: if_splits sum.splits)

lemma e2e_logs_no_run_id:
  "\<not> is_str (dget m (lit ''run_id'')) \<Longrightarrow>
     e2e_logs env m mp =
       (case dget m (lit ''logs'') of
          JList logs \<Rightarrow> seqs (map (log_entry_files_only env (parent mp)) logs)
        | _ \<Rightarrow> Inr [lit ''logs must be array''])"
  by (cases "dget m (lit ''logs'')")
     (simp_all add: e2e_logs_def e2e_run_id_not_str e2e_log_entry_no_run_id_fun)

lemma py_repr_json_loads [simp]: "py_repr (env \<lparr> json_loads := j \<rparr>) v = py_repr env v"
  by (induction env v rule: py_repr.induct) (simp_all cong: map_cong)

lemma py_str_json_loads [simp]: "py_str (env \<lparr> json_loads := j \<rparr>) v = py_str env v"
  by (cases v) (simp_all only: py_str.simps py_repr_json_loads)

lemma validate_file_entry_json_loads [simp]:
  "validate_file_entry (env \<lparr> json_loads := j \<rparr>) e base label = validate_file_entry env e base label"
  by (simp add: validate_file_entry_def bytes_check_def Let_def
        split: json.splits option.splits sum.splits)

lemma log_entry_files_only_json_loads [simp]:
  "log_entry_files_only (env \<lparr> json_loads := j \<rparr>) base = log_entry_files_only env base"
  by (rule ext) (simp add: log_entry_files_only_def split: json.splits sum.splits)

lemma jsonl_prefix_tag: "prefix (lit ''jsonl'') x \<Longrightarrow> take 3 x = lit ''jso''"
  by (auto simp: prefix_def lit_Cons)

lemma validate_manifest_e2e_no_jsonl:
  assumes r: "\<not> is_str (dget m (lit ''run_id''))"
    and v: "validate_manifest_e2e env (JDict m) mp sp = Inr errs" and x: "x \<in> set errs"
  shows "take 3 x \<noteq> lit ''jso''"
proof -
  from v obtain a b c5 c6 h l ar where
    a: "validate_schema_with_jsonschema env (JDict m) sp = Inr a" and
    b: "seqs (map (require_field (JDict m)) e2e_fields) = Inr b" and
    h: "e2e_self_hash m = Inr h" and
    l: "e2e_logs env m mp = Inr l" and
    ar: "e2e_artifacts env m mp = Inr ar" and
    errs: "errs = a @ b @ check_schema_version env m
                  @ must_be_string m (lit ''run_id'') (lit ''run_id'')
                  @ must_be_string m (lit ''suite'') (lit ''suite'')
                  @ must_be_string m (lit ''test_id'') (lit ''test_id'')
                  @ c5 @ c6 @ h @ e2e_commands m @ l @ ar" and
    c5: "c5 = (case dget m (lit ''timestamp'') of
                 JStr timestamp \<Rightarrow>
                   if \<not> parse_rfc3339 env timestamp then [lit ''timestamp not RFC3339'']
                   else []
               | _ \<Rightarrow> [lit ''timestamp must be string''])" and
    c6: "c6 = (case dget m (lit ''env'') of
                 JDict e \<Rightarrow>
                   concat (map (\<lambda>field. must_be_string e field (lit ''env.'' @ field))
                             [lit ''os'', lit ''arch'', lit ''kernel'', lit ''ci_provider''])
               | _ \<Rightarrow> [lit ''env must be object''])"
    unfolding validate_manifest_e2e_def
    by (auto simp: seqs_Cons_Inr seqs_Nil_Inr simp del: seqs.simps)
  have "\<forall>e \<in> set a. take 3 e \<noteq> lit ''jso''"
    using schema_errors_tag [OF a] by auto
  moreover have "\<forall>e \<in> set b. take 3 e \<noteq> lit ''jso''"
    using require_fields_tag [OF b] by auto
  moreover have "\<forall>e \<in> set (check_schema_version env m). take 3 e \<noteq> lit ''jso''"
    by (auto dest!: check_schema_version_tag)
  moreover have "\<forall>e \<in> set (must_be_string m (lit ''run_id'') (lit ''run_id'')).
      take 3 e \<noteq> lit ''jso''"
    by (auto dest!: must_be_string_mem simp: lit_Cons)
  moreover have "\<forall>e \<in> set (must_be_string m (lit ''suite'') (lit ''suite'')).
      take 3 e \<noteq> lit ''jso''"
    by (auto dest!: must_be_string_mem simp: lit_Cons)
  moreover have "\<forall>e \<in> set (must_be_string m (lit ''test_id'') (lit ''test_id'')).
      take 3 e \<noteq> lit ''jso''"
    by (auto dest!: must_be_string_mem simp: lit_Cons)
  moreover have "\<forall>e \<in> set c5. take 3 e \<noteq> lit ''jso''"
    unfolding c5 by (cases "dget m (lit ''timestamp'')") (auto simp: lit_Cons)
  moreover have "\<forall>e \<in> set c6. take 3 e \<noteq> lit ''jso''"
    unfolding c6 by (cases "dget m (lit ''env'')") (auto simp: lit_Cons dest!: must_be_string_mem)
  moreover have "\<forall>e \<in> set h. take 3 e \<noteq> lit ''jso''"
    using e2e_self_hash_tag [OF h] by auto
  moreover have "\<forall>e \<in> set (e2e_commands m). take 3 e \<noteq> lit ''jso''"
    by (auto dest!: e2e_commands_tag)
  moreover have "\<forall>e \<in> set l. take 3 e \<noteq> lit ''jso''"
    using e2e_logs_no_run_id_tag [OF r l] by auto
  moreover have "\<forall>e \<in> set ar. take 3 e \<noteq> lit ''jso''"
    using e2e_artifacts_tag [OF ar] by auto
  ultimately show ?thesis
    using x unfolding errs by (simp add: ball_Un) blast
qed

text \<open>
  Claim C10. In the end-to-end validator, when the manifest's \<open>run_id\<close> is absent or not a
  string, the log step does for every entry what it does without the JSONL check: it judges
  \<open>kind\<close> and runs \<open>validate_file_entry\<close> (existence, size, digest). No line of a log is
  parsed (the outcome does not depend on \<open>json.loads\<close>), and no error of the validator
  starts with \<open>jsonl\<close>.
\<close>

theorem jsonl_check_skipped_without_run_id:
  "\<not> is_str (dget m (lit ''run_id'')) \<longrightarrow>
     e2e_logs env m mp =
       (case dget m (lit ''logs'') of
          JList logs \<Rightarrow> seqs (map (log_entry_files_only env (parent mp)) logs)
        | _ \<Rightarrow> Inr [lit ''logs must be array''])
     \<and> e2e_logs (env \<lparr> json_loads := j \<rparr>) m mp = e2e_logs env m mp
     \<and> (validate_manifest_e2e env (JDict m) mp sp = Inr errs \<longrightarrow>
          (\<forall>x \<in> set errs. \<not> prefix (lit ''jsonl'') x))"
proof (intro impI conjI ballI)
  assume r: "\<not> is_str (dget m (lit ''run_id''))"
  show "e2e_logs env m mp =
       (case dget m (lit ''logs'') of
          JList logs \<Rightarrow> seqs (map (log_entry_files_only env (parent mp)) logs)
        | _ \<Rightarrow> Inr [lit ''logs must be array''])"
    using r by (rule e2e_logs_no_run_id)
  show "e2e_logs (env \<lparr> json_loads := j \<rparr>) m mp = e2e_logs env m mp"
    by (simp add: e2e_logs_no_run_id [OF r, of env]
          e2e_logs_no_run_id [OF r, of "env \<lparr> json_loads := j \<rparr>"] split: json.splits)
  fix x
  assume "validate_manifest_e2e env (JDict m) mp sp = Inr errs" and "x \<in> set errs"
  with r have "take 3 x \<noteq> lit ''jso''"
    by (rule validate_manifest_e2e_no_jsonl)
  then show "\<not> prefix (lit ''jsonl'') x"
    using jsonl_prefix_tag by blast
qed

lemma logs_anonymous:
  "e2e_logs jsonl_env anonymous_manifest (Path (lit ''m.json'')) =
     Inr [lit ''log bytes missing for log.jsonl'', lit ''log sha256 invalid for log.jsonl'']"
  by (simp add: e2e_logs_def anonymous_manifest_def e2e_run_id_def e2e_log_entry_def
        jsonl_entry_def dget_def LOG_KINDS_def validate_file_entry_def resolve_log_jsonl
        jsonl_env_def bytes_check_def sha256_check_def lit_append [symmetric])

lemma validate_anonymous:
  "validate_manifest_e2e jsonl_env (JDict anonymous_manifest) (Path (lit ''m.json''))
     (Path (lit ''s.json'')) = Inr anonymous_errors"
  by (simp add: validate_manifest_e2e_def logs_anonymous)
     (simp add: validate_schema_with_jsonschema_def bare_env_def jsonl_env_def
        anonymous_manifest_def anonymous_errors_def e2e_fields_def require_field_def
        dhas_def dget_def check_schema_version_def must_be_string_def e2e_self_hash_def
        e2e_commands_def e2e_artifacts_def lit_append [symmetric])

theorem jsonl_check_skipped_without_run_id_witness:
  "\<not> is_str (dget anonymous_manifest (lit ''run_id''))
   \<and> e2e_logs jsonl_env anonymous_manifest (Path (lit ''m.json'')) =
       Inr [lit ''log bytes missing for log.jsonl'', lit ''log sha256 invalid for log.jsonl'']
   \<and> e2e_logs (jsonl_env \<lparr> json_loads := (\<lambda>s. None) \<rparr>) anonymous_manifest (Path (lit ''m.json''))
       = e2e_logs jsonl_env anonymous_manifest (Path (lit ''m.json''))
   \<and> validate_manifest_e2e jsonl_env (JDict anonymous_manifest) (Path (lit ''m.json''))
        (Path (lit ''s.json'')) = Inr anonymous_errors
   \<and> filter (prefix (lit ''jsonl'')) anonymous_errors = []"
proof -
  have r: "\<not> is_str (dget anonymous_manifest (lit ''run_id''))"
    by (simp add: anonymous_manifest_def dget_def)
  note c = jsonl_check_skipped_without_run_id
    [where m = anonymous_manifest and env = jsonl_env and mp = "Path (lit ''m.json'')"
       and sp = "Path (lit ''s.json'')" and errs = anonymous_errors and j = "\<lambda>s. None",
     rule_format, OF r]
  from c validate_anonymous have "\<forall>x \<in> set anonymous_errors. \<not> prefix (lit ''jsonl'') x"
    by blast
  then have "filter (prefix (lit ''jsonl'')) anonymous_errors = []"
    by (simp add: filter_empty_conv)
  with r c logs_anonymous validate_anonymous show ?thesis
    by simp
qed

section \<open>Redaction scanner\<close>

lemma re_search_append:
  "m (if pre = [] then prev else Some (last pre)) s \<noteq> None \<Longrightarrow> s \<noteq> [] \<Longrightarrow>
     re_search m prev (pre @ s)"
proof (induction pre arbitrary: prev)
  case Nil
  then show ?case by (cases s) auto
next
  case (Cons a pre)
  then show ?case by (cases "pre = []") auto
qed

lemma re_sub_skip: "length s \<le> k \<Longrightarrow> re_sub m repl k prev s = []"
  by (induction m repl k prev s rule: re_sub.induct) auto

lemma re_sub_whole:
  assumes "m prev s = Some (length s)" and "s \<noteq> []"
  shows "re_sub m repl 0 prev s = repl"
proof -
  from assms(2) obtain c cs where s: "s = c # cs" by (cases s) auto
  with assms(1) have "m prev (c # cs) = Some (Suc (length cs))" by simp
  then show ?thesis by (simp add: s re_sub_skip)
qed

lemma home_users_alice:
  "HOME_RE env p (lit ''/Users/alice/project'' @ post) = Some 12"
  by (simp add: HOME_RE_def home_at_def lit_Cons)

lemma home_user_placeholder:
  "HOME_RE env p (lit ''/home/USER/project'' @ post) = Some 10"
  by (simp add: HOME_RE_def home_at_def lit_Cons)

lemma search_users_alice:
  "re_search (HOME_RE env) None (pre @ lit ''/Users/alice/project'' @ post)"
  by (rule re_search_append) (simp_all add: home_users_alice)

lemma search_user_placeholder:
  "re_search (HOME_RE env) None (pre @ lit ''/home/USER/project'' @ post)"
  by (rule re_search_append) (simp_all add: home_user_placeholder)

lemma check_redaction_home:
  "re_search (HOME_RE env) None v \<Longrightarrow>
     label @ lit '' contains unredacted home path'' \<in> set (check_redaction env v label)"
  by (simp add: check_redaction_def)

lemma check_redaction_uuid:
  "re_search (UUID_RE env) None v \<Longrightarrow>
     label @ lit '' contains unredacted UUID'' \<in> set (check_redaction env v label)"
  by (simp add: check_redaction_def)

lemma check_redaction_hex:
  "re_search (HEX_RE env) None v \<Longrightarrow>
     label @ lit '' contains unredacted hex id'' \<in> set (check_redaction env v label)"
  by (simp add: check_redaction_def)

lemma is_word_ascii [simp]:
  "c < 128 \<Longrightarrow> is_word env c = (is_digit c \<or> (65 \<le> c \<and> c \<le> 90) \<or> (97 \<le> c \<and> c \<le> 122) \<or> c = 95)"
  by (simp add: is_word_def)

lemma uuid_example:
  "UUID_RE env None (lit ''123e4567-e89b-12d3-a456-426614174000'') = Some 36"
  by (simp add: UUID_RE_def at_boundary_def lit_Cons is_hex_ci_def is_lower_hex_def is_digit_def)

lemma check_uuid_example:
  "check_redaction env (lit ''123e4567-e89b-12d3-a456-426614174000'') label
     = [label @ lit '' contains unredacted UUID'']"
  by (simp add: check_redaction_def lit_Cons HOME_RE_def home_at_def UUID_RE_def HEX_RE_def
        at_boundary_def is_hex_ci_def is_lower_hex_def is_digit_def)

lemma check_uuid_placeholder: "check_redaction env (lit ''<UUID>'') label = []"
  by (simp add: check_redaction_def lit_Cons HOME_RE_def home_at_def UUID_RE_def HEX_RE_def
        at_boundary_def is_hex_ci_def is_lower_hex_def is_digit_def)

lemma redact_uuid_example:
  "redact_id env (lit ''123e4567-e89b-12d3-a456-426614174000'') = lit ''<UUID>''"
proof -
  have "re_sub (UUID_RE env) (lit ''<UUID>'') 0 None (lit ''123e4567-e89b-12d3-a456-426614174000'')
          = lit ''<UUID>''"
    by (rule re_sub_whole) (simp_all add: uuid_example)
  moreover have "re_sub (HEX_RE env) (lit ''<HEX>'') 0 None (lit ''<UUID>'') = lit ''<UUID>''"
    by (simp add: lit_Cons HEX_RE_def at_boundary_def is_hex_ci_def is_lower_hex_def is_digit_def)
  ultimately show ?thesis by (simp add: redact_id_def)
qed

lemma redact_users_alice:
  "redact_path env (lit ''/Users/alice/project'') = lit ''/home/USER/project''"
  by (simp add: redact_path_def lit_Cons HOME_RE_def home_at_def)

lemma is_hex_ci_word: "is_hex_ci c \<Longrightarrow> is_word env c"
  by (auto simp: is_hex_ci_def is_lower_hex_def is_digit_def is_word_def)

lemma uuid_shape_ends:
  assumes "uuid_shape [8, 4, 4, 4, 12] u" and "length u = 36"
  shows "is_hex_ci (u ! 0) \<and> is_hex_ci (u ! 35)"
proof -
  from assms have a: "list_all is_hex_ci (take 8 u)"
    and b: "list_all is_hex_ci (take 12 (drop 24 u))"
    by (simp_all add: numeral_eq_Suc)
  from a assms(2) have "is_hex_ci (u ! 0)"
    by (simp add: list_all_length)
  moreover from b assms(2) have "\<forall>n<12. is_hex_ci (u ! (24 + n))"
    by (simp add: list_all_length)
  then have "is_hex_ci (u ! (24 + 11))"
    by (rule allE [of _ 11]) simp
  ultimately show ?thesis by simp
qed

lemma uuid_shape_append:
  assumes "uuid_shape [8, 4, 4, 4, 12] u" and "length u = 36"
  shows "uuid_shape [8, 4, 4, 4, 12] (u @ post)"
  using assms by (simp add: numeral_eq_Suc)

lemma uuid_in_context:
  assumes u: "uuid_shape [8, 4, 4, 4, 12] u" "length u = 36"
    and pre: "pre = [] \<or> \<not> is_word env (last pre)"
    and post: "post = [] \<or> \<not> is_word env (hd post)"
  shows "re_search (UUID_RE env) None (pre @ u @ post)"
proof (rule re_search_append)
  from u(2) obtain c cs where ucs: "u = c # cs" by (cases u) auto
  from uuid_shape_ends [OF u] ucs have first: "is_word env c" and last: "is_word env (u ! 35)"
    by (auto intro: is_hex_ci_word)
  have b1: "at_boundary env (if pre = [] then None else Some (last pre)) (u @ post)"
    using pre first by (auto simp: at_boundary_def ucs)
  have b2: "at_boundary env (Some ((u @ post) ! 35)) (drop 36 (u @ post))"
    using post last u(2) by (cases post) (auto simp: at_boundary_def nth_append)
  show "UUID_RE env (if pre = [] then None else Some (last pre)) (u @ post) \<noteq> None"
    using b1 b2 uuid_shape_append [OF u] by (simp add: UUID_RE_def)
  show "u @ post \<noteq> []" using ucs by simp
qed

text \<open>
  Claim C3. The scanner flags every string that contains \<open>/Users/alice/project\<close> (home
  path), and every string in which a well-formed UUID stands between non-word characters
  or the ends of the string. After the redactor's substitution of the UUID, \<open><UUID>\<close> is
  not flagged. The last part of the claim does not hold in the code: the redactor turns
  \<open>/Users/alice/project\<close> into \<open>/home/USER/project\<close>, which \<open>HOME_RE\<close> matches again, so every
  string that contains it is still reported as an unredacted home path.
\<close>

theorem redaction_detection:
  "label @ lit '' contains unredacted home path''
     \<in> set (check_redaction env (pre @ lit ''/Users/alice/project'' @ post) label)
   \<and> (uuid_shape [8, 4, 4, 4, 12] u \<longrightarrow> length u = 36 \<longrightarrow>
       (pre = [] \<or> \<not> is_word env (last pre)) \<longrightarrow> (post = [] \<or> \<not> is_word env (hd post)) \<longrightarrow>
         label @ lit '' contains unredacted UUID''
           \<in> set (check_redaction env (pre @ u @ post) label))
   \<and> redact_path env (lit ''/Users/alice/project'') = lit ''/home/USER/project''
   \<and> label @ lit '' contains unredacted home path''
       \<in> set (check_redaction env (pre @ lit ''/home/USER/project'' @ post) label)
   \<and> check_redaction env (lit ''/home/USER/project'') label
       = [label @ lit '' contains unredacted home path'']
   \<and> redact_id env (lit ''123e4567-e89b-12d3-a456-426614174000'') = lit ''<UUID>''
   \<and> check_redaction env (lit ''<UUID>'') label = []"
proof (intro conjI impI)
  show "label @ lit '' contains unredacted home path''
     \<in> set (check_redaction env (pre @ lit ''/Users/alice/project'' @ post) label)"
    by (rule check_redaction_home) (rule search_users_alice)
  show "label @ lit '' contains unredacted home path''
       \<in> set (check_redaction env (pre @ lit ''/home/USER/project'' @ post) label)"
    by (rule check_redaction_home) (rule search_user_placeholder)
  show "redact_path env (lit ''/Users/alice/project'') = lit ''/home/USER/project''"
    by (rule redact_users_alice)
  show "check_redaction env (lit ''/home/USER/project'') label
       = [label @ lit '' contains unredacted home path'']"
    by (simp add: check_redaction_def lit_Cons HOME_RE_def home_at_def UUID_RE_def HEX_RE_def
          at_boundary_def is_hex_ci_def is_lower_hex_def is_digit_def)
  show "redact_id env (lit ''123e4567-e89b-12d3-a456-426614174000'') = lit ''<UUID>''"
    by (rule redact_uuid_example)
  show "check_redaction env (lit ''<UUID>'') label = []"
    by (rule check_uuid_placeholder)
next
  assume "uuid_shape [8, 4, 4, 4, 12] u" "length u = 36"
    "pre = [] \<or> \<not> is_word env (last pre)" "post = [] \<or> \<not> is_word env (hd post)"
  then show "label @ lit '' contains unredacted UUID''
           \<in> set (check_redaction env (pre @ u @ post) label)"
    by (intro check_redaction_uuid uuid_in_context)
qed

lemma uuid_example_shape:
  "uuid_shape [8, 4, 4, 4, 12] (lit ''123e4567-e89b-12d3-a456-426614174000'')"
  by (simp add: lit_Cons is_hex_ci_def is_lower_hex_def is_digit_def)

theorem redaction_detection_witness:
  "uuid_shape [8, 4, 4, 4, 12] (lit ''123e4567-e89b-12d3-a456-426614174000'')
   \<and> length (lit ''123e4567-e89b-12d3-a456-426614174000'') = 36
   \<and> (lit ''id '' = [] \<or> \<not> is_word bare_env (last (lit ''id '')))
   \<and> ([] = [] \<or> \<not> is_word bare_env (hd []))
   \<and> lit ''source.command[0] contains unredacted UUID''
       \<in> set (check_redaction bare_env (lit ''id 123e4567-e89b-12d3-a456-426614174000'')
                 (lit ''source.command[0]''))
   \<and> check_redaction bare_env (lit ''/home/USER/project'') (lit ''source.paths[0]'')
       = [lit ''source.paths[0] contains unredacted home path'']"
proof -
  have l: "length (lit ''123e4567-e89b-12d3-a456-426614174000'') = 36" by simp
  have p: "lit ''id '' = [] \<or> \<not> is_word bare_env (last (lit ''id ''))"
    by (simp add: lit_Cons is_digit_def)
  have q: "[] = [] \<or> \<not> is_word bare_env (hd [])" by simp
  note r = redaction_detection
    [where env = bare_env and u = "lit ''123e4567-e89b-12d3-a456-426614174000''"
       and pre = "lit ''id ''" and post = "[]" and label = "lit ''source.command[0]''",
     THEN conjunct2, THEN conjunct1, rule_format, OF uuid_example_shape l p q]
  note s = redaction_detection
    [where env = bare_env and label = "lit ''source.paths[0]''",
     THEN conjunct2, THEN conjunct2, THEN conjunct2, THEN conjunct2, THEN conjunct1]
  show ?thesis
    using uuid_example_shape l p q r s
    by (simp add: lit_append [symmetric])
qed

lemma map_of_replace_other:
  "k' \<noteq> k \<Longrightarrow> map_of (map (\<lambda>kv. if fst kv = k then (k, v) else kv) d) k' = map_of d k'"
  by (induction d) auto

lemma dget_dict_set_other [simp]: "k' \<noteq> k \<Longrightarrow> dget (dict_set d k v) k' = dget d k'"
  by (auto simp: dget_def dict_set_def map_of_replace_other map_add_def split: option.splits)

lemma source_key_dict_set_origin:
  "key \<noteq> lit ''origin'' \<Longrightarrow>
     source_key env (dict_set source (lit ''origin'') v) key = source_key env source key"
  by (simp add: source_key_def)

lemma source_item_mem:
  assumes "dget source key = JList v" and "i < length v" and "v ! i = JStr s"
    and "x \<in> set (check_redaction env s (source_label key i))"
  shows "x \<in> set (source_key env source key)"
proof -
  from assms(2) have "(i, v ! i) \<in> set (enumerate 0 v)"
    by (simp add: in_set_enumerate_eq)
  moreover have "x \<in> set (source_item env key (i, v ! i))"
    using assms(3,4) by (simp add: source_item_def)
  ultimately show ?thesis
    using assms(1) by (auto simp: source_key_def)
qed

lemma source_key_sub:
  "key = lit ''command'' \<or> key = lit ''paths'' \<Longrightarrow>
     set (source_key env source key) \<subseteq> set (validate_source env source)"
  by (auto simp: validate_source_def)

text \<open>
  Claim C7, amended. The scanner covers the entries of \<open>command\<close> and of \<open>paths\<close> in the
  source block: when \<open>HOME_RE\<close>, \<open>UUID_RE\<close> or \<open>HEX_RE\<close> matches somewhere in a string entry,
  the violation is reported under the label of that entry (\<open>source.command[i]\<close>,
  \<open>source.paths[i]\<close>). \<open>origin\<close> is not scanned: it must be a non-empty string, and which one
  makes no difference to the errors.
\<close>

theorem source_scanner_coverage:
  "((key = lit ''command'' \<or> key = lit ''paths'') \<longrightarrow>
    dget source key = JList v \<longrightarrow> i < length v \<longrightarrow> v ! i = JStr s \<longrightarrow>
      (re_search (HOME_RE env) None s \<longrightarrow>
         source_label key i @ lit '' contains unredacted home path''
           \<in> set (validate_source env source))
      \<and> (re_search (UUID_RE env) None s \<longrightarrow>
         source_label key i @ lit '' contains unredacted UUID''
           \<in> set (validate_source env source))
      \<and> (re_search (HEX_RE env) None s \<longrightarrow>
         source_label key i @ lit '' contains unredacted hex id''
           \<in> set (validate_source env source)))
   \<and> (dget source (lit ''origin'') = JStr origin \<longrightarrow> origin \<noteq> [] \<longrightarrow> origin' \<noteq> [] \<longrightarrow>
        validate_source env (dict_set source (lit ''origin'') (JStr origin'))
          = validate_source env source)"
proof (intro conjI impI)
  assume k: "key = lit ''command'' \<or> key = lit ''paths''"
    and v: "dget source key = JList v" "i < length v" "v ! i = JStr s"
  note sub = source_key_sub [OF k, of env source]
  {
    assume "re_search (HOME_RE env) None s"
    then have "source_label key i @ lit '' contains unredacted home path''
        \<in> set (check_redaction env s (source_label key i))"
      by (rule check_redaction_home)
    from source_item_mem [OF v this] sub
    show "source_label key i @ lit '' contains unredacted home path''
           \<in> set (validate_source env source)"
      by blast
  }
  {
    assume "re_search (UUID_RE env) None s"
    then have "source_label key i @ lit '' contains unredacted UUID''
        \<in> set (check_redaction env s (source_label key i))"
      by (rule check_redaction_uuid)
    from source_item_mem [OF v this] sub
    show "source_label key i @ lit '' contains unredacted UUID''
           \<in> set (validate_source env source)"
      by blast
  }
  {
    assume "re_search (HEX_RE env) None s"
    then have "source_label key i @ lit '' contains unredacted hex id''
        \<in> set (check_redaction env s (source_label key i))"
      by (rule check_redaction_hex)
    from source_item_mem [OF v this] sub
    show "source_label key i @ lit '' contains unredacted hex id''
           \<in> set (validate_source env source)"
      by blast
  }
next
  assume "dget source (lit ''origin'') = JStr origin" "origin \<noteq> []" "origin' \<noteq> []"
  then show "validate_source env (dict_set source (lit ''origin'') (JStr origin'))
          = validate_source env source"
    by (simp add: validate_source_def source_key_dict_set_origin)
qed

text \<open>
  As written, the claim fails for \<open>origin\<close>: a home path there is not reported.
\<close>

theorem origin_not_scanned: "validate_source bare_env origin_only_source = []"
  by (simp add: validate_source_def origin_only_source_def dget_def source_key_def)

lemma search_hex_example:
  "re_search (HEX_RE env) None (lit ''0123456789abcdef0123456789abcdef'')"
  by (simp add: lit_Cons HEX_RE_def at_boundary_def is_hex_ci_def is_lower_hex_def is_digit_def)

lemma source_labels:
  "source_label (lit ''command'') 0 = lit ''source.command[0]''"
  "source_label (lit ''command'') (Suc 0) = lit ''source.command[1]''"
  "source_label (lit ''command'') 2 = lit ''source.command[2]''"
  by (simp_all add: source_label_def dec.simps lit_Cons)

theorem source_scanner_coverage_witness:
  "dget unredacted_source (lit ''command'')
     = JList [JStr (lit ''/Users/alice/project''),
              JStr (lit ''123e4567-e89b-12d3-a456-426614174000''),
              JStr (lit ''0123456789abcdef0123456789abcdef'')]
   \<and> re_search (HOME_RE bare_env) None (lit ''/Users/alice/project'')
   \<and> re_search (UUID_RE bare_env) None (lit ''123e4567-e89b-12d3-a456-426614174000'')
   \<and> re_search (HEX_RE bare_env) None (lit ''0123456789abcdef0123456789abcdef'')
   \<and> lit ''source.command[0] contains unredacted home path''
       \<in> set (validate_source bare_env unredacted_source)
   \<and> lit ''source.command[1] contains unredacted UUID''
       \<in> set (validate_source bare_env unredacted_source)
   \<and> lit ''source.command[2] contains unredacted hex id''
       \<in> set (validate_source bare_env unredacted_source)
   \<and> dget unredacted_source (lit ''origin'') = JStr (lit ''manual'') \<and> lit ''manual'' \<noteq> []
   \<and> lit ''/Users/alice/project'' \<noteq> []
   \<and> validate_source bare_env
        (dict_set unredacted_source (lit ''origin'') (JStr (lit ''/Users/alice/project'')))
       = validate_source bare_env unredacted_source"
proof -
  let ?v = "[JStr (lit ''/Users/alice/project''),
              JStr (lit ''123e4567-e89b-12d3-a456-426614174000''),
              JStr (lit ''0123456789abcdef0123456789abcdef'')]"
  have k: "lit ''command'' = lit ''command'' \<or> lit ''command'' = lit ''paths''" by simp
  have c: "dget unredacted_source (lit ''command'') = JList ?v"
    by (simp add: unredacted_source_def dget_def)
  have h: "re_search (HOME_RE bare_env) None (lit ''/Users/alice/project'')"
    using search_users_alice [of bare_env "[]" "[]"] by simp
  have u: "re_search (UUID_RE bare_env) None (lit ''123e4567-e89b-12d3-a456-426614174000'')"
    using uuid_in_context [OF uuid_example_shape, of "[]" bare_env "[]"] by simp
  note x = search_hex_example [of bare_env]
  have o: "dget unredacted_source (lit ''origin'') = JStr (lit ''manual'')"
    by (simp add: unredacted_source_def dget_def)
  have i0: "0 < length ?v" "?v ! 0 = JStr (lit ''/Users/alice/project'')" by simp_all
  have i1: "1 < length ?v" "?v ! 1 = JStr (lit ''123e4567-e89b-12d3-a456-426614174000'')"
    by simp_all
  have i2: "2 < length ?v" "?v ! 2 = JStr (lit ''0123456789abcdef0123456789abcdef'')"
    by simp_all
  note t = source_scanner_coverage [where env = bare_env and source = unredacted_source]
  note t0 = t [THEN conjunct1, rule_format, OF k c i0, THEN conjunct1, rule_format, OF h]
  note t1 = t [THEN conjunct1, rule_format, OF k c i1, THEN conjunct2, THEN conjunct1,
               rule_format, OF u]
  note t2 = t [THEN conjunct1, rule_format, OF k c i2, THEN conjunct2, THEN conjunct2,
               rule_format, OF x]
  note t3 = t [where origin' = "lit ''/Users/alice/project''", THEN conjunct2, rule_format, OF o]
  show ?thesis
    using c h u x o t0 t1 t2 t3
    by (simp add: source_labels lit_append [symmetric])
qed

end
